theory Spec2Isabelle
  imports Main "HOL-Library.AList"
begin

text \<open>
  A model of the curl MCP server: the parser of curl command strings, the request executor
  built on axios, the tool handler with its input schemas, and the HTTP wrapper which
  duplicates parser and executor in plain JavaScript. The HTTP library and the two readings
  of the clock are parameters; header objects live in a heap, since the two executors differ
  in what they share with their caller.
\<close>

section \<open>JavaScript strings\<close>

text \<open>
  A JavaScript string is modelled as a \<^typ>\<open>string\<close>: every \<^typ>\<open>char\<close> is one code unit
  with a value below 256 (the Latin-1 range of UTF-16). On this range the operations below
  are the ones of ECMAScript: the white space recognised by \<open>String.prototype.trim\<close> and
  by \<open>\s\<close> is TAB, LF, VT, FF, CR, SPACE and NBSP; \<open>toLowerCase\<close> maps A-Z and the
  Latin-1 capitals; the UTF-8 encoding takes one byte below 128 and two bytes from 128 on.
\<close>

definition isSpace :: "char \<Rightarrow> bool" where
  "isSpace c \<longleftrightarrow>
     c \<in> set [CHR 0x09, CHR 0x0A, CHR 0x0B, CHR 0x0C, CHR 0x0D, CHR 0x20, CHR 0xA0]"

definition trim :: "string \<Rightarrow> string" where
  "trim s = rev (dropWhile isSpace (rev (dropWhile isSpace s)))"

definition lowerChar :: "char \<Rightarrow> char" where
  "lowerChar c =
     (let n = (of_char c :: nat)
      in if (65 \<le> n \<and> n \<le> 90) \<or> (192 \<le> n \<and> n \<le> 222 \<and> n \<noteq> 215)
         then char_of (n + 32) else c)"

definition toLowerCase :: "string \<Rightarrow> string" where
  "toLowerCase s = map lowerChar s"

text \<open>
  \<open>toUpperCase\<close> is only applied to what \<open>[A-Z]+\<close> captured under the \<open>i\<close> flag, a run
  of ASCII letters; the same mapping is the \<open>Canonicalize\<close> of case-insensitive matching,
  which never identifies a code unit from 128 on with one below 128.
\<close>

definition upperChar :: "char \<Rightarrow> char" where
  "upperChar c =
     (let n = (of_char c :: nat)
      in if (97 \<le> n \<and> n \<le> 122) \<or> (224 \<le> n \<and> n \<le> 254 \<and> n \<noteq> 247)
         then char_of (n - 32) else c)"

definition toUpperCase :: "string \<Rightarrow> string" where
  "toUpperCase s = map upperChar s"

definition startsWith :: "string \<Rightarrow> string \<Rightarrow> bool" where
  "startsWith s p \<longleftrightarrow> take (length p) s = p"

text \<open>\<open>s.indexOf(c)\<close>: the first index of the character, \<open>None\<close> for JavaScript's -1.\<close>

fun indexOf :: "string \<Rightarrow> char \<Rightarrow> nat option" where
  "indexOf [] c = None"
| "indexOf (x # xs) c = (if x = c then Some 0 else map_option Suc (indexOf xs c))"

text \<open>\<open>Buffer.byteLength(s, 'utf-8')\<close>.\<close>

definition byteLength :: "string \<Rightarrow> nat" where
  "byteLength s = length s + length (filter (\<lambda>c. 128 \<le> (of_char c :: nat)) s)"

text \<open>\<open>s.replace(/\\x/g, r)\<close>: every backslash followed by \<open>x\<close> becomes \<open>r\<close>, left to right.\<close>

fun replaceEscape :: "char \<Rightarrow> char \<Rightarrow> string \<Rightarrow> string" where
  "replaceEscape x r (a # b # cs) =
     (if a = CHR 0x5C \<and> b = x then r # replaceEscape x r cs
      else a # replaceEscape x r (b # cs))"
| "replaceEscape x r cs = cs"

section \<open>Regular expressions\<close>

text \<open>
  The patterns of the parser, as a syntax tree with the backtracking semantics of
  ECMAScript under the \<open>i\<close> flag. A matcher state is the index into the subject, the rest
  of the subject and the captures so far (the newest first); \<open>rmatch\<close> lists the states
  after a match in the order in which backtracking tries them, so that the head of the list
  is the match which \<open>exec\<close> reports.
\<close>

datatype rx =
    Lit string
  | Cls "char \<Rightarrow> bool"
  | Plus "char \<Rightarrow> bool"
  | Bol
  | Seq rx rx
  | Alt rx rx
  | Opt rx
  | Cap nat rx
  | Ref nat

type_synonym captures = "(nat \<times> string) list"
type_synonym mstate = "nat \<times> string \<times> captures"

definition litMatch :: "string \<Rightarrow> mstate \<Rightarrow> mstate list" where
  "litMatch l st =
     (case st of (i, s, c) \<Rightarrow>
        if length l \<le> length s \<and> map upperChar (take (length l) s) = map upperChar l
        then [(i + length l, drop (length l) s, c)] else [])"

fun rmatch :: "rx \<Rightarrow> mstate \<Rightarrow> mstate list" where
  "rmatch (Lit l) st = litMatch l st"
| "rmatch (Cls p) (i, s, c) =
     (case s of [] \<Rightarrow> [] | x # xs \<Rightarrow> if p x then [(Suc i, xs, c)] else [])"
| "rmatch (Plus p) (i, s, c) =
     map (\<lambda>k. (i + k, drop k s, c)) (rev [1 ..< Suc (length (takeWhile p s))])"
| "rmatch Bol (i, s, c) = (if i = 0 then [(i, s, c)] else [])"
| "rmatch (Seq a b) st = concat (map (rmatch b) (rmatch a st))"
| "rmatch (Alt a b) st = rmatch a st @ rmatch b st"
| "rmatch (Opt a) st = rmatch a st @ [st]"
| "rmatch (Cap n a) (i, s, c) =
     map (\<lambda>(j, s', c'). (j, s', (n, take (j - i) s) # c')) (rmatch a (i, s, c))"
| "rmatch (Ref n) st =
     (case map_of (snd (snd st)) n of None \<Rightarrow> [st] | Some l \<Rightarrow> litMatch l st)"

text \<open>
  \<open>regex.exec\<close> from index \<open>i\<close>, where \<open>s\<close> is the subject from \<open>i\<close> on: the leftmost start
  with a match, and there the first match. Group 0 is the whole match.
\<close>

fun rexec :: "rx \<Rightarrow> nat \<Rightarrow> string \<Rightarrow> mstate option" where
  "rexec r i [] = (case rmatch (Cap 0 r) (i, [], []) of [] \<Rightarrow> None | st # _ \<Rightarrow> Some st)"
| "rexec r i (x # xs) =
     (case rmatch (Cap 0 r) (i, x # xs, []) of [] \<Rightarrow> rexec r (Suc i) xs | st # _ \<Rightarrow> Some st)"

definition grp :: "mstate \<Rightarrow> nat \<Rightarrow> string option" where
  "grp st n = map_of (snd (snd st)) n"

definition isQuote :: "char \<Rightarrow> bool" where
  "isQuote c \<longleftrightarrow> c = CHR 0x27 \<or> c = CHR 0x22"

definition notApostrophe :: "char \<Rightarrow> bool" where
  "notApostrophe c \<longleftrightarrow> c \<noteq> CHR 0x27"

definition bareChar :: "char \<Rightarrow> bool" where
  "bareChar c \<longleftrightarrow> c \<noteq> CHR 0x27 \<and> \<not> isSpace c"

definition urlChar :: "char \<Rightarrow> bool" where
  "urlChar c \<longleftrightarrow> \<not> isSpace c \<and> c \<noteq> CHR 0x22 \<and> c \<noteq> CHR 0x27 \<and> c \<noteq> CHR ''$''"

definition isLetter :: "char \<Rightarrow> bool" where
  "isLetter c \<longleftrightarrow> (let n = (of_char (upperChar c) :: nat) in 65 \<le> n \<and> n \<le> 90 \<and> (of_char c :: nat) < 128)"

text \<open>\<open>https?:\/\/[^\s"'\$]+\<close>\<close>

definition urlPattern :: rx where
  "urlPattern = Seq (Lit ''http'') (Seq (Opt (Lit ''s'')) (Seq (Lit ''://'') (Plus urlChar)))"

text \<open>\<open>/(?:^|\s)(https?:\/\/[^\s"'\$]+)/i\<close>\<close>

definition urlRegex :: rx where
  "urlRegex = Seq (Alt Bol (Cls isSpace)) (Cap 1 urlPattern)"

text \<open>\<open>/-(?:X|request)\s+(['"]?)([A-Z]+)\1/i\<close>\<close>

definition methodRegex :: rx where
  "methodRegex =
     Seq (Lit ''-'') (Seq (Alt (Lit ''X'') (Lit ''request'')) (Seq (Plus isSpace)
       (Seq (Cap 1 (Opt (Cls isQuote))) (Seq (Cap 2 (Plus isLetter)) (Ref 1)))))"

text \<open>\<open>/-(?:H|header)\s+(['"])([^']+)\1/gi\<close>\<close>

definition headerRegex :: rx where
  "headerRegex =
     Seq (Lit ''-'') (Seq (Alt (Lit ''H'') (Lit ''header'')) (Seq (Plus isSpace)
       (Seq (Cap 1 (Cls isQuote)) (Seq (Cap 2 (Plus notApostrophe)) (Ref 1)))))"

text \<open>\<open>/--data(?:-ascii|-binary|-urlencode)?\s+(['"])([^']+)\1|-(?:d|data)\s+(['"]?)([^'\s]+)\3/gi\<close>\<close>

definition dataRegex :: rx where
  "dataRegex =
     Alt
      (Seq (Lit ''--data'')
        (Seq (Opt (Alt (Lit ''-ascii'') (Alt (Lit ''-binary'') (Lit ''-urlencode''))))
          (Seq (Plus isSpace)
            (Seq (Cap 1 (Cls isQuote)) (Seq (Cap 2 (Plus notApostrophe)) (Ref 1))))))
      (Seq (Lit ''-'') (Seq (Alt (Lit ''d'') (Lit ''data'')) (Seq (Plus isSpace)
        (Seq (Cap 3 (Opt (Cls isQuote))) (Seq (Cap 4 (Plus bareChar)) (Ref 3))))))"

text \<open>\<open>/-(?:u|user)\s+(['"]?)([^'\s]+)\1/i\<close>\<close>

definition authRegex :: rx where
  "authRegex =
     Seq (Lit ''-'') (Seq (Alt (Lit ''u'') (Lit ''user'')) (Seq (Plus isSpace)
       (Seq (Cap 1 (Opt (Cls isQuote))) (Seq (Cap 2 (Plus bareChar)) (Ref 1)))))"


section \<open>Request descriptors\<close>

datatype AuthType = basic | bearer | none

record AuthConfig =
  authType :: AuthType
  username :: "string option"
  password :: "string option"
  token :: "string option"

text \<open>
  A \<open>Record<string, string>\<close>: the own properties in insertion order. An object is held by
  reference; the heap lists the header objects allocated so far and a reference is an index
  into it. \<open>HttpRequestConfig\<close> is the interface of \<open>types.ts\<close>, with the headers either
  by value (\<open>'h\<close> is \<open>headerObj\<close>: the object is owned by the descriptor alone) or by
  reference (\<open>'h\<close> is \<open>ref\<close>).
\<close>

type_synonym headerObj = "(string \<times> string) list"
type_synonym ref = nat
type_synonym heap = "headerObj list"

record 'h HttpRequestConfig =
  url :: string
  httpMethod :: string
  headers :: "'h option"
  body :: "string option"
  auth :: "AuthConfig option"
  timeout :: "int option"
  followRedirects :: "bool option"

text \<open>
  \<open>obj[k] = v\<close> for a string \<open>v\<close> on an object with the prototype \<open>Object.prototype\<close>:
  the key \<open>__proto__\<close> reaches the inherited setter, which ignores a string, unless the
  object has an own property of that name.
\<close>

definition setProp :: "headerObj \<Rightarrow> string \<Rightarrow> string \<Rightarrow> headerObj" where
  "setProp obj k v =
     (if k = ''__proto__'' \<and> map_of obj k = None then obj else AList.update k v obj)"

text \<open>\<open>!obj[k]\<close> for a key other than \<open>__proto__\<close>: the property is missing or the empty string.\<close>

definition falsyProp :: "headerObj \<Rightarrow> string \<Rightarrow> bool" where
  "falsyProp obj k \<longleftrightarrow> (case map_of obj k of None \<Rightarrow> True | Some v \<Rightarrow> v = [])"

text \<open>The truth value of an optional string: \<open>undefined\<close> and \<open>''\<close> are falsy.\<close>

definition truthyStr :: "string option \<Rightarrow> bool" where
  "truthyStr v \<longleftrightarrow> (case v of None \<Rightarrow> False | Some s \<Rightarrow> s \<noteq> [])"

section \<open>The curl parser (curl-parser.ts)\<close>

datatype parse_error = InvalidCommand | MissingUrl

definition errorMessage :: "parse_error \<Rightarrow> string" where
  "errorMessage e =
     (case e of
        InvalidCommand \<Rightarrow> ''Invalid curl command: Must start with '' @ [CHR 0x22] @ ''curl'' @ [CHR 0x22]
      | MissingUrl \<Rightarrow> ''Could not find URL in curl command'')"

text \<open>
  \<open>match[n]\<close> where it is read as a string. A group that took no part in the match is
  \<open>undefined\<close>; it is read so only in \<open>dataMatch[2] || dataMatch[4]\<close>, where \<open>undefined\<close>
  and \<open>''\<close> are both falsy.
\<close>

definition groupText :: "mstate \<Rightarrow> nat \<Rightarrow> string" where
  "groupText m n = (case grp m n of None \<Rightarrow> [] | Some g \<Rightarrow> g)"

text \<open>The body of the header loop, lines 40 to 56, on \<open>parsed.headers\<close> and \<open>parsed.auth\<close>.\<close>

definition collectHeader ::
  "string \<Rightarrow> headerObj \<times> AuthConfig option \<Rightarrow> headerObj \<times> AuthConfig option" where
  "collectHeader headerLine acc =
     (case indexOf headerLine (CHR '':'') of
        None \<Rightarrow> acc
      | Some colonIndex \<Rightarrow>
          if colonIndex > 0 then
            let key = trim (take colonIndex headerLine);
                val = trim (drop (colonIndex + 1) headerLine)
            in (setProp (fst acc) key val,
                if toLowerCase key = ''authorization'' \<and> startsWith (toLowerCase val) ''bearer ''
                then Some \<lparr>authType = bearer, username = None, password = None,
                            token = Some (drop 7 val)\<rparr>
                else snd acc)
          else acc)"

function scanHeaders ::
  "nat \<Rightarrow> string \<Rightarrow> headerObj \<times> AuthConfig option \<Rightarrow> headerObj \<times> AuthConfig option" where
  "scanHeaders lastIndex s acc =
     (case rexec headerRegex lastIndex s of
        None \<Rightarrow> acc
      | Some (j, rest, caps) \<Rightarrow>
          scanHeaders j rest (collectHeader (groupText (j, rest, caps) 2) acc))"
  by pat_completeness auto

definition unescape :: "string \<Rightarrow> string" where
  "unescape dataValue =
     replaceEscape (CHR ''r'') (CHR 0x0D)
       (replaceEscape (CHR ''t'') (CHR 0x09) (replaceEscape (CHR ''n'') (CHR 0x0A) dataValue))"

text \<open>The data loop, lines 61 to 73: the value of \<open>body\<close> after it, \<open>''\<close> when nothing was found.\<close>

function scanData :: "nat \<Rightarrow> string \<Rightarrow> string" where
  "scanData lastIndex s =
     (case rexec dataRegex lastIndex s of
        None \<Rightarrow> []
      | Some (j, rest, caps) \<Rightarrow>
          let dataValue = (if groupText (j, rest, caps) 2 \<noteq> [] then groupText (j, rest, caps) 2
                           else groupText (j, rest, caps) 4)
          in if dataValue \<noteq> [] then unescape dataValue else scanData j rest)"
  by pat_completeness auto

definition basicAuth :: "string \<Rightarrow> AuthConfig" where
  "basicAuth credentials =
     (case indexOf credentials (CHR '':'') of
        Some (Suc colonIndex) \<Rightarrow>
          \<lparr>authType = basic, username = Some (take (Suc colonIndex) credentials),
           password = Some (drop (Suc colonIndex + 1) credentials), token = None\<rparr>
      | _ \<Rightarrow> \<lparr>authType = basic, username = Some credentials, password = Some [], token = None\<rparr>)"

definition parseCurlCommand :: "string \<Rightarrow> parse_error + headerObj HttpRequestConfig" where
  "parseCurlCommand curlCommand =
     (let trimmed = trim curlCommand in
      if \<not> startsWith (toLowerCase trimmed) ''curl'' then Inl InvalidCommand
      else
        case rexec urlRegex 0 trimmed of
          None \<Rightarrow> Inl MissingUrl
        | Some urlMatch \<Rightarrow>
            let methodMatch = rexec methodRegex 0 trimmed;
                method0 = (case methodMatch of None \<Rightarrow> ''GET''
                           | Some m \<Rightarrow> toUpperCase (groupText m 2));
                scanned = scanHeaders 0 trimmed ([], None);
                data = scanData 0 trimmed;
                method1 = (if data \<noteq> [] \<and> methodMatch = None then ''POST'' else method0);
                auth1 = (case rexec authRegex 0 trimmed of
                           None \<Rightarrow> snd scanned
                         | Some authMatch \<Rightarrow> Some (basicAuth (groupText authMatch 2)))
            in Inr \<lparr>url = groupText urlMatch 1, httpMethod = method1,
                     headers = Some (fst scanned),
                     body = (if data \<noteq> [] then Some data else None),
                     auth = auth1, timeout = Some 30000, followRedirects = Some True\<rparr>)"

text \<open>
  The parser of the HTTP wrapper (\<open>parseCurlCommand\<close>, "simplified version"): no trimming, no
  check of the command word or of the URL, no authentication; the URL pattern has no
  \<open>(?:^|\s)\<close> in front and \<open>urlMatch[0]\<close> is read.
\<close>

definition facadeParseCurlCommand :: "string \<Rightarrow> headerObj HttpRequestConfig" where
  "facadeParseCurlCommand curlCommand =
     (let url0 = (case rexec urlPattern 0 curlCommand of None \<Rightarrow> []
                  | Some urlMatch \<Rightarrow> groupText urlMatch 0);
          methodMatch = rexec methodRegex 0 curlCommand;
          method0 = (case methodMatch of None \<Rightarrow> ''GET''
                     | Some m \<Rightarrow> toUpperCase (groupText m 2));
          hdrs = fst (scanHeaders 0 curlCommand ([], None));
          data = scanData 0 curlCommand
      in \<lparr>url = url0,
          httpMethod = (if data \<noteq> [] \<and> methodMatch = None then ''POST'' else method0),
          headers = Some hdrs,
          body = (if data \<noteq> [] then Some data else None),
          auth = None, timeout = None, followRedirects = None\<rparr>)"

section \<open>JavaScript values and JSON text\<close>

text \<open>
  What \<open>response.data\<close> and a parsed JSON request body can be. Numbers are the integers
  (a number with a fraction is outside the model); the properties of an object are listed in
  enumeration order.
\<close>

datatype jsval =
    JUndefined
  | JNull
  | JBool bool
  | JNum int
  | JStr string
  | JArr "jsval list"
  | JObj "(string \<times> jsval) list"

fun truthy :: "jsval \<Rightarrow> bool" where
  "truthy JUndefined = False"
| "truthy JNull = False"
| "truthy (JBool b) = b"
| "truthy (JNum n) = (n \<noteq> 0)"
| "truthy (JStr s) = (s \<noteq> [])"
| "truthy (JArr xs) = True"
| "truthy (JObj kvs) = True"

text \<open>\<open>typeof v === 'object'\<close>: objects, arrays and \<open>null\<close>.\<close>

fun typeofObject :: "jsval \<Rightarrow> bool" where
  "typeofObject JNull = True"
| "typeofObject (JArr xs) = True"
| "typeofObject (JObj kvs) = True"
| "typeofObject v = False"

text \<open>\<open>v[k]\<close> for a property name \<open>k\<close> that no prototype defines.\<close>

fun getField :: "jsval \<Rightarrow> string \<Rightarrow> jsval" where
  "getField (JObj kvs) k = (case map_of kvs k of None \<Rightarrow> JUndefined | Some v \<Rightarrow> v)"
| "getField v k = JUndefined"

definition digitChar :: "nat \<Rightarrow> char" where
  "digitChar d = char_of (48 + d)"

fun showNat :: "nat \<Rightarrow> string" where
  "showNat n = (if n < 10 then [digitChar n] else showNat (n div 10) @ [digitChar (n mod 10)])"

definition showInt :: "int \<Rightarrow> string" where
  "showInt i = (if i < 0 then CHR ''-'' # showNat (nat (- i)) else showNat (nat i))"

definition hexChar :: "nat \<Rightarrow> char" where
  "hexChar d = (if d < 10 then char_of (48 + d) else char_of (87 + d))"

text \<open>\<open>QuoteJSONString\<close> on code units below 256.\<close>

definition escapeChar :: "char \<Rightarrow> string" where
  "escapeChar c =
     (if c = CHR 0x22 then [CHR 0x5C, CHR 0x22]
      else if c = CHR 0x5C then [CHR 0x5C, CHR 0x5C]
      else if c = CHR 0x08 then [CHR 0x5C, CHR ''b'']
      else if c = CHR 0x0C then [CHR 0x5C, CHR ''f'']
      else if c = CHR 0x0A then [CHR 0x5C, CHR ''n'']
      else if c = CHR 0x0D then [CHR 0x5C, CHR ''r'']
      else if c = CHR 0x09 then [CHR 0x5C, CHR ''t'']
      else if (of_char c :: nat) < 32
        then [CHR 0x5C, CHR ''u'', CHR ''0'', CHR ''0'',
              hexChar ((of_char c :: nat) div 16), hexChar ((of_char c :: nat) mod 16)]
      else [c])"

definition quoteJSON :: "string \<Rightarrow> string" where
  "quoteJSON s = [CHR 0x22] @ concat (map escapeChar s) @ [CHR 0x22]"

fun join :: "string \<Rightarrow> string list \<Rightarrow> string" where
  "join sep [] = []"
| "join sep [x] = x"
| "join sep (x # y # ys) = x @ sep @ join sep (y # ys)"

text \<open>
  \<open>SerializeJSONProperty\<close> of ECMAScript with the gap (\<open>''\<close> for \<open>JSON.stringify(v)\<close>, two
  spaces for \<open>JSON.stringify(v, null, 2)\<close>) and the current indentation. \<open>None\<close> is
  \<open>undefined\<close>: an array holds \<open>null\<close> in its place and an object leaves the property out.
\<close>

fun serialize :: "string \<Rightarrow> string \<Rightarrow> jsval \<Rightarrow> string option" where
  "serialize gap ind JUndefined = None"
| "serialize gap ind JNull = Some ''null''"
| "serialize gap ind (JBool b) = Some (if b then ''true'' else ''false'')"
| "serialize gap ind (JNum n) = Some (showInt n)"
| "serialize gap ind (JStr s) = Some (quoteJSON s)"
| "serialize gap ind (JArr xs) =
     (let partial = map (\<lambda>x. case serialize gap (ind @ gap) x of
                                None \<Rightarrow> ''null'' | Some t \<Rightarrow> t) xs
      in Some (if partial = [] then ''[]''
               else if gap = [] then ''['' @ join '','' partial @ '']''
               else ''['' @ [CHR 0x0A] @ (ind @ gap)
                    @ join ('','' @ [CHR 0x0A] @ (ind @ gap)) partial
                    @ [CHR 0x0A] @ ind @ '']''))"
| "serialize gap ind (JObj kvs) =
     (let partial = concat (map (\<lambda>kv. case serialize gap (ind @ gap) (snd kv) of
                                None \<Rightarrow> []
                              | Some t \<Rightarrow>
                                  [quoteJSON (fst kv) @ '':''
                                   @ (if gap = [] then [] else '' '') @ t]) kvs)
      in Some (if partial = [] then ''{}''
               else if gap = [] then ''{'' @ join '','' partial @ ''}''
               else ''{'' @ [CHR 0x0A] @ (ind @ gap)
                    @ join ('','' @ [CHR 0x0A] @ (ind @ gap)) partial
                    @ [CHR 0x0A] @ ind @ ''}''))"

text \<open>\<open>JSON.stringify(v)\<close> and \<open>JSON.stringify(v, null, 2)\<close>.\<close>

definition stringify :: "jsval \<Rightarrow> string option" where
  "stringify v = serialize [] [] v"

definition stringifyPretty :: "jsval \<Rightarrow> string option" where
  "stringifyPretty v = serialize ''  '' [] v"

section \<open>The request executor (http-client.ts)\<close>

record AxiosConfig =
  ax_url :: string
  ax_method :: string
  ax_headers :: ref
  ax_timeout :: "int option"
  maxRedirects :: nat
  validateStatus :: "int \<Rightarrow> bool"
  ax_data :: "string option"
  ax_auth :: "(string \<times> string) option"

record AxiosResponse =
  r_status :: int
  r_statusText :: string
  r_headers :: headerObj
  r_data :: jsval

record AxiosError =
  response :: "AxiosResponse option"
  request :: bool
  message :: string

text \<open>
  What \<open>await axios(axiosConfig)\<close> does: it resolves to a response, or rejects with an
  \<open>AxiosError\<close>, or with another value (\<open>Some\<close> the message of an \<open>Error\<close>). The library is
  a parameter of the executor: a function of the heap and the configuration it is given.
\<close>

datatype outcome =
    Resolved AxiosResponse
  | RejectedAxios AxiosError
  | RejectedOther "string option"

type_synonym transport = "heap \<Rightarrow> AxiosConfig \<Rightarrow> outcome"

record HttpResponse =
  success :: bool
  status :: int
  statusText :: string
  resp_headers :: headerObj
  resp_body :: string
  bodySize :: nat
  duration :: int
  error :: "string option"

text \<open>
  Reading the object at a reference. Every reference of a running program is allocated;
  for an index beyond the heap the model reads the empty object.
\<close>

definition deref :: "heap \<Rightarrow> ref \<Rightarrow> headerObj" where
  "deref h r = (if r < length h then h ! r else [])"

text \<open>
  The two branches of the authentication switch: \<open>Some\<close> the credentials when the type is
  \<open>basic\<close> and user name and password are both truthy; \<open>Some\<close> the token when the type is
  \<open>bearer\<close> and the token is truthy.
\<close>

definition basicCredentials :: "AuthConfig option \<Rightarrow> (string \<times> string) option" where
  "basicCredentials a =
     (case a of
        None \<Rightarrow> None
      | Some c \<Rightarrow>
          (case (username c, password c) of
             (Some u, Some p) \<Rightarrow> if authType c = basic \<and> u \<noteq> [] \<and> p \<noteq> [] then Some (u, p) else None
           | _ \<Rightarrow> None))"

definition bearerToken :: "AuthConfig option \<Rightarrow> string option" where
  "bearerToken a =
     (case a of
        None \<Rightarrow> None
      | Some c \<Rightarrow>
          (case token c of
             Some t \<Rightarrow> if authType c = bearer \<and> t \<noteq> [] then Some t else None
           | None \<Rightarrow> None))"

text \<open>
  Lines 16 to 52 of \<open>executeRequest\<close>: the new header object
  \<open>{ ...(config.headers || {}) }\<close> is allocated at the end of the heap and all writes go to it.
\<close>

definition buildAxiosConfig :: "heap \<Rightarrow> ref HttpRequestConfig \<Rightarrow> heap \<times> AxiosConfig" where
  "buildAxiosConfig h config =
     (let hdrs = length h;
          h1 = h @ [case headers config of None \<Rightarrow> [] | Some r \<Rightarrow> deref h r];
          attach = (truthyStr (body config) \<and> httpMethod config \<in> set [''POST'', ''PUT'', ''PATCH'']);
          h2 = (if attach \<and> falsyProp (deref h1 hdrs) ''Content-Type''
                then h1[hdrs := setProp (deref h1 hdrs) ''Content-Type'' ''application/json'']
                else h1);
          h3 = (case bearerToken (auth config) of
                  None \<Rightarrow> h2
                | Some t \<Rightarrow> h2[hdrs := setProp (deref h2 hdrs) ''Authorization'' (''Bearer '' @ t)])
      in (h3,
          \<lparr>ax_url = url config, ax_method = toLowerCase (httpMethod config), ax_headers = hdrs,
           ax_timeout = timeout config,
           maxRedirects = (if followRedirects config = Some True then 5 else 0),
           validateStatus = (\<lambda>_. True),
           ax_data = (if attach then body config else None),
           ax_auth = basicCredentials (auth config)\<rparr>))"

definition formatBody :: "jsval \<Rightarrow> string" where
  "formatBody data =
     (case data of
        JUndefined \<Rightarrow> []
      | JNull \<Rightarrow> []
      | JStr s \<Rightarrow> s
      | JBool b \<Rightarrow> (if b then ''true'' else ''false'')
      | JNum n \<Rightarrow> showInt n
      | _ \<Rightarrow> (case stringifyPretty data of None \<Rightarrow> [] | Some t \<Rightarrow> t))"

definition calculateBodySize :: "jsval \<Rightarrow> nat" where
  "calculateBodySize data = byteLength (formatBody data)"

definition httpError :: "int \<Rightarrow> string \<Rightarrow> string" where
  "httpError st txt = ''HTTP '' @ showInt st @ '': '' @ txt"

definition handleAxiosError :: "AxiosError \<Rightarrow> int \<Rightarrow> HttpResponse" where
  "handleAxiosError err dur =
     (case response err of
        Some r \<Rightarrow>
          \<lparr>success = False, status = r_status r, statusText = r_statusText r,
           resp_headers = r_headers r, resp_body = formatBody (r_data r),
           bodySize = calculateBodySize (r_data r), duration = dur,
           error = Some (httpError (r_status r) (r_statusText r))\<rparr>
      | None \<Rightarrow>
          if request err then
            \<lparr>success = False, status = 0, statusText = ''No Response'', resp_headers = [],
             resp_body = [], bodySize = 0, duration = dur,
             error = Some ''No response received from server''\<rparr>
          else
            \<lparr>success = False, status = 0, statusText = ''Request Error'', resp_headers = [],
             resp_body = [], bodySize = 0, duration = dur, error = Some (message err)\<rparr>)"

text \<open>Lines 56 to 93: the descriptor for what the transport did, with the measured duration.\<close>

definition buildResponse :: "outcome \<Rightarrow> int \<Rightarrow> HttpResponse" where
  "buildResponse out dur =
     (case out of
        Resolved r \<Rightarrow>
          (let ok = (r_status r \<ge> 200 \<and> r_status r < 300)
           in \<lparr>success = ok, status = r_status r, statusText = r_statusText r,
               resp_headers = r_headers r, resp_body = formatBody (r_data r),
               bodySize = calculateBodySize (r_data r), duration = dur,
               error = (if \<not> ok then Some (httpError (r_status r) (r_statusText r)) else None)\<rparr>)
      | RejectedAxios err \<Rightarrow> handleAxiosError err dur
      | RejectedOther msg \<Rightarrow>
          \<lparr>success = False, status = 0, statusText = ''Unknown Error'', resp_headers = [],
           resp_body = [], bodySize = 0, duration = dur,
           error = Some (case msg of Some m \<Rightarrow> m | None \<Rightarrow> ''Unknown error occurred'')\<rparr>)"

text \<open>
  \<open>executeRequest\<close>: \<open>startTime\<close> and \<open>endTime\<close> are the two readings of \<open>Date.now()\<close>. The
  result is the heap after the call and the descriptor returned.
\<close>

definition executeRequest ::
  "transport \<Rightarrow> int \<Rightarrow> int \<Rightarrow> heap \<Rightarrow> ref HttpRequestConfig \<Rightarrow> heap \<times> HttpResponse" where
  "executeRequest axios startTime endTime h config =
     (let (h', axiosConfig) = buildAxiosConfig h config
      in (h', buildResponse (axios h' axiosConfig) (endTime - startTime)))"

section \<open>The HTTP wrapper\<close>

record FacadeResponse =
  f_success :: bool
  f_status :: int
  f_statusText :: string
  f_headers :: headerObj
  f_body :: jsval
  f_bodySize :: nat
  f_duration :: int
  f_error :: "string option"

text \<open>
  Lines 78 to 105 of \<open>executeHttpRequest\<close>: \<open>headers: config.headers || {}\<close> is the
  descriptor's own object when it has one, and a new object otherwise.
\<close>

definition facadeBuildAxiosConfig :: "heap \<Rightarrow> ref HttpRequestConfig \<Rightarrow> heap \<times> AxiosConfig" where
  "facadeBuildAxiosConfig h config =
     (let hdrs = (case headers config of None \<Rightarrow> length h | Some r \<Rightarrow> r);
          h1 = (case headers config of None \<Rightarrow> h @ [[]] | Some r \<Rightarrow> h);
          attach = (truthyStr (body config) \<and> httpMethod config \<in> set [''POST'', ''PUT'', ''PATCH'']);
          h2 = (if attach \<and> falsyProp (deref h1 hdrs) ''Content-Type''
                then h1[hdrs := setProp (deref h1 hdrs) ''Content-Type'' ''application/json'']
                else h1);
          h3 = (if basicCredentials (auth config) \<noteq> None then h2
                else case bearerToken (auth config) of
                  None \<Rightarrow> h2
                | Some t \<Rightarrow> h2[hdrs := setProp (deref h2 hdrs) ''Authorization'' (''Bearer '' @ t)])
      in (h3,
          \<lparr>ax_url = url config, ax_method = toLowerCase (httpMethod config), ax_headers = hdrs,
           ax_timeout = Some (case timeout config of None \<Rightarrow> 30000
                              | Some t \<Rightarrow> if t = 0 then 30000 else t),
           maxRedirects = (if followRedirects config \<noteq> Some False then 5 else 0),
           validateStatus = (\<lambda>_. True),
           ax_data = (if attach then body config else None),
           ax_auth = basicCredentials (auth config)\<rparr>))"

text \<open>
  Line 115, the body of a success: \<open>JSON.stringify(data, null, 2)\<close> for an object, the
  payload itself otherwise.
\<close>

definition facadeBody :: "jsval \<Rightarrow> jsval" where
  "facadeBody data =
     (if typeofObject data
      then (case stringifyPretty data of None \<Rightarrow> JUndefined | Some t \<Rightarrow> JStr t)
      else data)"

text \<open>
  Lines 116 to 119: \<open>Buffer.byteLength\<close> of \<open>JSON.stringify(data)\<close> for an object, of
  \<open>data || ''\<close> otherwise; \<open>None\<close> is the \<open>TypeError\<close> of \<open>Buffer.byteLength\<close> on a number
  or on \<open>true\<close>.
\<close>

definition facadeBodySize :: "jsval \<Rightarrow> nat option" where
  "facadeBodySize data =
     (if typeofObject data then map_option byteLength (stringify data)
      else if \<not> truthy data then Some 0
      else (case data of JStr s \<Rightarrow> Some (byteLength s) | _ \<Rightarrow> None))"

text \<open>Line 131, the body of an error with a response: \<open>JSON.stringify(data)\<close> for an object.\<close>

definition facadeErrorBody :: "jsval \<Rightarrow> jsval" where
  "facadeErrorBody data =
     (if typeofObject data
      then (case stringify data of None \<Rightarrow> JUndefined | Some t \<Rightarrow> JStr t)
      else data)"

definition facadeFailure :: "string option \<Rightarrow> int \<Rightarrow> FacadeResponse" where
  "facadeFailure msg dur =
     \<lparr>f_success = False, f_status = 0, f_statusText = ''Error'', f_headers = [],
      f_body = JStr [], f_bodySize = 0, f_duration = dur, f_error = msg\<rparr>"

definition byteLengthTypeError :: string where
  "byteLengthTypeError =
     ''The string argument must be of type string or an instance of Buffer or ArrayBuffer''"

definition facadeBuildResponse :: "outcome \<Rightarrow> int \<Rightarrow> FacadeResponse" where
  "facadeBuildResponse out dur =
     (case out of
        Resolved r \<Rightarrow>
          (case facadeBodySize (r_data r) of
             Some n \<Rightarrow>
               \<lparr>f_success = (r_status r \<ge> 200 \<and> r_status r < 300), f_status = r_status r,
                f_statusText = r_statusText r, f_headers = r_headers r,
                f_body = facadeBody (r_data r), f_bodySize = n, f_duration = dur,
                f_error = None\<rparr>
           | None \<Rightarrow> facadeFailure (Some byteLengthTypeError) dur)
      | RejectedAxios err \<Rightarrow>
          (case response err of
             Some r \<Rightarrow>
               \<lparr>f_success = False, f_status = r_status r, f_statusText = r_statusText r,
                f_headers = r_headers r, f_body = facadeErrorBody (r_data r), f_bodySize = 0,
                f_duration = dur, f_error = Some (httpError (r_status r) (r_statusText r))\<rparr>
           | None \<Rightarrow> facadeFailure (Some (message err)) dur)
      | RejectedOther msg \<Rightarrow> facadeFailure msg dur)"

definition executeHttpRequest ::
  "transport \<Rightarrow> int \<Rightarrow> int \<Rightarrow> heap \<Rightarrow> ref HttpRequestConfig \<Rightarrow> heap \<times> FacadeResponse" where
  "executeHttpRequest axios startTime endTime h config =
     (let (h', axiosConfig) = facadeBuildAxiosConfig h config
      in (h', facadeBuildResponse (axios h' axiosConfig) (endTime - startTime)))"

text \<open>
  A descriptor whose header object is owned by it alone, placed in a heap of its own: what
  an entry point hands to an executor.
\<close>

definition intoHeap :: "headerObj HttpRequestConfig \<Rightarrow> heap \<times> ref HttpRequestConfig" where
  "intoHeap c =
     (case headers c of None \<Rightarrow> [] | Some hs \<Rightarrow> [hs],
      \<lparr>url = url c, httpMethod = httpMethod c, headers = map_option (\<lambda>_. 0) (headers c),
       body = body c, auth = auth c, timeout = timeout c,
       followRedirects = followRedirects c\<rparr>)"

record reply =
  code :: nat
  payload :: jsval

definition headersJson :: "headerObj \<Rightarrow> jsval" where
  "headersJson hs = JObj (map (\<lambda>kv. (fst kv, JStr (snd kv))) hs)"

definition facadeResponseJson :: "FacadeResponse \<Rightarrow> jsval" where
  "facadeResponseJson r =
     JObj ([(''success'', JBool (f_success r)), (''status'', JNum (f_status r)),
            (''statusText'', JStr (f_statusText r)), (''headers'', headersJson (f_headers r)),
            (''body'', f_body r), (''bodySize'', JNum (int (f_bodySize r))),
            (''duration'', JNum (f_duration r))]
           @ (case f_error r of None \<Rightarrow> [] | Some e \<Rightarrow> [(''error'', JStr e)]))"

text \<open>The \<open>catch\<close> of both endpoints: status 500.\<close>

definition internalError :: "string \<Rightarrow> reply" where
  "internalError msg =
     \<lparr>code = 500,
      payload = JObj [(''success'', JBool False), (''error'', JStr msg), (''status'', JNum 0),
                      (''statusText'', JStr ''Error''), (''headers'', JObj []),
                      (''body'', JStr []), (''bodySize'', JNum 0), (''duration'', JNum 0)]\<rparr>"

definition requiredError :: "string \<Rightarrow> reply" where
  "requiredError field =
     \<lparr>code = 400, payload = JObj [(''error'', JStr (field @ '' is required''))]\<rparr>"

text \<open>
  \<open>POST /api/execute_curl\<close> on the parsed request body \<open>req.body\<close>. Destructuring
  \<open>undefined\<close> or \<open>null\<close>, and \<open>curlCommand.match\<close> on a value that is not a string, raise a
  \<open>TypeError\<close> inside the \<open>try\<close>.
\<close>

definition api_execute_curl :: "transport \<Rightarrow> int \<Rightarrow> int \<Rightarrow> jsval \<Rightarrow> reply" where
  "api_execute_curl axios startTime endTime reqBody =
     (if reqBody = JUndefined \<or> reqBody = JNull
      then internalError ''Cannot destructure property curlCommand of req.body''
      else
        let curlCommand = getField reqBody ''curlCommand'' in
        if \<not> truthy curlCommand then requiredError ''curlCommand''
        else
          case curlCommand of
            JStr s \<Rightarrow>
              (let (h, parsed) = intoHeap (facadeParseCurlCommand s);
                   (h', result) = executeHttpRequest axios startTime endTime h parsed
               in \<lparr>code = 200, payload = facadeResponseJson result\<rparr>)
          | _ \<Rightarrow> internalError ''curlCommand.match is not a function'')"

text \<open>
  \<open>POST /api/http_request\<close>. The request body is \<open>None\<close> for \<open>undefined\<close>; the fields that
  are present have the JSON types of the tool contract.
\<close>

record HttpRequestBody =
  b_url :: "string option"
  b_method :: "string option"
  b_headers :: "headerObj option"
  b_body :: "string option"
  b_auth :: "AuthConfig option"
  b_timeout :: "int option"
  b_followRedirects :: "bool option"

definition api_http_request ::
  "transport \<Rightarrow> int \<Rightarrow> int \<Rightarrow> HttpRequestBody option \<Rightarrow> reply" where
  "api_http_request axios startTime endTime reqBody =
     (case reqBody of
        None \<Rightarrow> internalError ''Cannot destructure property url of req.body''
      | Some b \<Rightarrow>
          (case b_url b of
             None \<Rightarrow> requiredError ''url''
           | Some u \<Rightarrow>
               if u = [] then requiredError ''url''
               else
                 let (h, config) =
                       intoHeap \<lparr>url = u,
                                 httpMethod = (case b_method b of None \<Rightarrow> ''GET'' | Some m \<Rightarrow> m),
                                 headers = b_headers b, body = b_body b, auth = b_auth b,
                                 timeout = b_timeout b,
                                 followRedirects = b_followRedirects b\<rparr>;
                     (h', result) = executeHttpRequest axios startTime endTime h config
                 in \<lparr>code = 200, payload = facadeResponseJson result\<rparr>))"

section \<open>The MCP server (server.ts, types.ts)\<close>

text \<open>
  Validation by the zod schemas. An issue is the path of the offending value and its kind;
  the wording of the message is the library's. Whether a string is a URL (\<open>z.string().url()\<close>)
  is the library's decision too, the parameter \<open>isUrl\<close>.
\<close>

datatype issue_kind = Required | InvalidType | InvalidEnumValue | InvalidUrl

type_synonym zod_issue = "string list \<times> issue_kind"

definition ap :: "(zod_issue list + ('a \<Rightarrow> 'b)) \<Rightarrow> (zod_issue list + 'a) \<Rightarrow> zod_issue list + 'b" where
  "ap f x =
     (case f of
        Inl e1 \<Rightarrow> (case x of Inl e2 \<Rightarrow> Inl (e1 @ e2) | Inr a \<Rightarrow> Inl e1)
      | Inr g \<Rightarrow> (case x of Inl e2 \<Rightarrow> Inl e2 | Inr a \<Rightarrow> Inr (g a)))"

fun zString :: "string list \<Rightarrow> jsval \<Rightarrow> zod_issue list + string" where
  "zString p (JStr s) = Inr s"
| "zString p JUndefined = Inl [(p, Required)]"
| "zString p v = Inl [(p, InvalidType)]"

fun zOptional :: "(string list \<Rightarrow> jsval \<Rightarrow> zod_issue list + 'a) \<Rightarrow> string list \<Rightarrow> jsval
    \<Rightarrow> zod_issue list + 'a option" where
  "zOptional z p JUndefined = Inr None"
| "zOptional z p v = (case z p v of Inl e \<Rightarrow> Inl e | Inr a \<Rightarrow> Inr (Some a))"

definition zUrl :: "(string \<Rightarrow> bool) \<Rightarrow> string list \<Rightarrow> jsval \<Rightarrow> zod_issue list + string" where
  "zUrl isUrl p v =
     (case zString p v of
        Inl e \<Rightarrow> Inl e
      | Inr s \<Rightarrow> if isUrl s then Inr s else Inl [(p, InvalidUrl)])"

definition zEnum :: "string list \<Rightarrow> string list \<Rightarrow> jsval \<Rightarrow> zod_issue list + string" where
  "zEnum options p v =
     (case zString p v of
        Inl e \<Rightarrow> Inl e
      | Inr s \<Rightarrow> if s \<in> set options then Inr s else Inl [(p, InvalidEnumValue)])"

fun zNumber :: "string list \<Rightarrow> jsval \<Rightarrow> zod_issue list + int" where
  "zNumber p (JNum n) = Inr n"
| "zNumber p JUndefined = Inl [(p, Required)]"
| "zNumber p v = Inl [(p, InvalidType)]"

fun zBoolean :: "string list \<Rightarrow> jsval \<Rightarrow> zod_issue list + bool" where
  "zBoolean p (JBool b) = Inr b"
| "zBoolean p JUndefined = Inl [(p, Required)]"
| "zBoolean p v = Inl [(p, InvalidType)]"

text \<open>\<open>z.record(z.string(), z.string())\<close>\<close>

fun zRecordFields :: "string list \<Rightarrow> (string \<times> jsval) list \<Rightarrow> zod_issue list + headerObj" where
  "zRecordFields p [] = Inr []"
| "zRecordFields p ((k, v) # kvs) =
     ap (ap (Inr (\<lambda>s rest. (k, s) # rest)) (zString (p @ [k]) v)) (zRecordFields p kvs)"

fun zRecord :: "string list \<Rightarrow> jsval \<Rightarrow> zod_issue list + headerObj" where
  "zRecord p (JObj kvs) = zRecordFields p kvs"
| "zRecord p JUndefined = Inl [(p, Required)]"
| "zRecord p v = Inl [(p, InvalidType)]"

definition authTypeOf :: "string \<Rightarrow> AuthType" where
  "authTypeOf s = (if s = ''basic'' then basic else if s = ''bearer'' then bearer else none)"

fun zAuth :: "string list \<Rightarrow> jsval \<Rightarrow> zod_issue list + AuthConfig" where
  "zAuth p (JObj kvs) =
     ap (ap (ap (ap (Inr (\<lambda>t u pw tok. \<lparr>authType = authTypeOf t, username = u, password = pw,
                                          token = tok\<rparr>))
        (zEnum [''basic'', ''bearer'', ''none''] (p @ [''type'']) (getField (JObj kvs) ''type'')))
        (zOptional zString (p @ [''username'']) (getField (JObj kvs) ''username'')))
        (zOptional zString (p @ [''password'']) (getField (JObj kvs) ''password'')))
        (zOptional zString (p @ [''token'']) (getField (JObj kvs) ''token''))"
| "zAuth p JUndefined = Inl [(p, Required)]"
| "zAuth p v = Inl [(p, InvalidType)]"

text \<open>
  \<open>HttpRequestInput\<close>, the output of \<open>HttpRequestInputSchema\<close>. TypeScript's types are erased
  at run time: \<open>applyDefaults\<close> reads \<open>input.method || 'GET'\<close>, so the method is optional in
  the value it takes, although the schema never produces an input without one.
\<close>

record HttpRequestInput =
  in_url :: string
  in_method :: "string option"
  in_headers :: "headerObj option"
  in_body :: "string option"
  in_auth :: "AuthConfig option"
  in_timeout :: "int option"
  in_followRedirects :: "bool option"

definition httpMethods :: "string list" where
  "httpMethods = [''GET'', ''POST'', ''PUT'', ''PATCH'', ''DELETE'', ''HEAD'', ''OPTIONS'']"

fun HttpRequestInputSchema :: "(string \<Rightarrow> bool) \<Rightarrow> jsval \<Rightarrow> zod_issue list + HttpRequestInput" where
  "HttpRequestInputSchema isUrl (JObj kvs) =
     ap (ap (ap (ap (ap (ap (ap
        (Inr (\<lambda>u m hs b a t f. \<lparr>in_url = u, in_method = Some m, in_headers = hs, in_body = b,
                                 in_auth = a, in_timeout = t, in_followRedirects = f\<rparr>))
        (zUrl isUrl [''url''] (getField (JObj kvs) ''url'')))
        (zEnum httpMethods [''method''] (getField (JObj kvs) ''method'')))
        (zOptional zRecord [''headers''] (getField (JObj kvs) ''headers'')))
        (zOptional zString [''body''] (getField (JObj kvs) ''body'')))
        (zOptional zAuth [''auth''] (getField (JObj kvs) ''auth'')))
        (zOptional zNumber [''timeout''] (getField (JObj kvs) ''timeout'')))
        (zOptional zBoolean [''followRedirects''] (getField (JObj kvs) ''followRedirects''))"
| "HttpRequestInputSchema isUrl JUndefined = Inl [([], Required)]"
| "HttpRequestInputSchema isUrl v = Inl [([], InvalidType)]"

fun ExecuteCurlInputSchema :: "jsval \<Rightarrow> zod_issue list + string" where
  "ExecuteCurlInputSchema (JObj kvs) = zString [''curlCommand''] (getField (JObj kvs) ''curlCommand'')"
| "ExecuteCurlInputSchema JUndefined = Inl [([], Required)]"
| "ExecuteCurlInputSchema v = Inl [([], InvalidType)]"

definition applyDefaults :: "HttpRequestInput \<Rightarrow> headerObj HttpRequestConfig" where
  "applyDefaults input =
     \<lparr>url = in_url input,
      httpMethod = (case in_method input of None \<Rightarrow> ''GET''
                    | Some m \<Rightarrow> if m = [] then ''GET'' else m),
      headers = in_headers input, body = in_body input, auth = in_auth input,
      timeout = Some (case in_timeout input of None \<Rightarrow> 30000 | Some t \<Rightarrow> t),
      followRedirects = Some (case in_followRedirects input of None \<Rightarrow> True | Some f \<Rightarrow> f)\<rparr>"

text \<open>
  The result of the \<open>CallTool\<close> handler: the text content \<open>JSON.stringify(response, null, 2)\<close>
  of a descriptor, or a result flagged \<open>isError\<close> whose JSON has \<open>success: false\<close>, the error
  \<open>Invalid input\<close> with the issues as details, or the message of another error.
\<close>

datatype tool_result =
    ToolResponse HttpResponse
  | ToolInvalidInput "zod_issue list"
  | ToolFailure string

definition callTool ::
  "(string \<Rightarrow> bool) \<Rightarrow> transport \<Rightarrow> int \<Rightarrow> int \<Rightarrow> string \<Rightarrow> jsval \<Rightarrow> tool_result" where
  "callTool isUrl axios startTime endTime name args =
     (if name = ''execute_curl'' then
        (case ExecuteCurlInputSchema args of
           Inl issues \<Rightarrow> ToolInvalidInput issues
         | Inr curlCommand \<Rightarrow>
             (case parseCurlCommand curlCommand of
                Inl e \<Rightarrow> ToolFailure (errorMessage e)
              | Inr parsed \<Rightarrow>
                  (let (h, config) = intoHeap parsed
                   in ToolResponse (snd (executeRequest axios startTime endTime h config)))))
      else if name = ''http_request'' then
        (case HttpRequestInputSchema isUrl args of
           Inl issues \<Rightarrow> ToolInvalidInput issues
         | Inr input \<Rightarrow>
             (let (h, config) = intoHeap (applyDefaults input)
              in ToolResponse (snd (executeRequest axios startTime endTime h config))))
      else ToolFailure (''Unknown tool: '' @ name))"

section \<open>URL tokens\<close>

text \<open>
  The words of the specification for the URL the parser looks for, to be compared with the
  pattern of the code: an absolute http or https URL begins a string when the string starts
  with the scheme \<open>http://\<close> or \<open>https://\<close>, in any letter case, followed by at least one
  character other than white space, the two quotes and \<open>$\<close>. A URL token is such a URL at
  the beginning of the string or directly after a white space character; \<open>containsUrl\<close> asks
  for the URL anywhere in the string.
\<close>

definition ieqPrefix :: "string \<Rightarrow> string \<Rightarrow> bool" where
  "ieqPrefix p w \<longleftrightarrow>
     length p \<le> length w \<and> map upperChar (take (length p) w) = map upperChar p"

definition beginsWithUrl :: "string \<Rightarrow> bool" where
  "beginsWithUrl w \<longleftrightarrow>
     (ieqPrefix ''http://'' w \<and> (case drop 7 w of [] \<Rightarrow> False | c # cs \<Rightarrow> urlChar c))
     \<or> (ieqPrefix ''https://'' w \<and> (case drop 8 w of [] \<Rightarrow> False | c # cs \<Rightarrow> urlChar c))"

fun urlTokenFrom :: "bool \<Rightarrow> string \<Rightarrow> bool" where
  "urlTokenFrom atStart [] = False"
| "urlTokenFrom atStart (x # xs) =
     ((atStart \<and> beginsWithUrl (x # xs)) \<or> urlTokenFrom (isSpace x) xs)"

definition containsUrlToken :: "string \<Rightarrow> bool" where
  "containsUrlToken s = urlTokenFrom True s"

fun containsUrl :: "string \<Rightarrow> bool" where
  "containsUrl [] = False"
| "containsUrl (x # xs) = (beginsWithUrl (x # xs) \<or> containsUrl xs)"

text \<open>No name and no value of a header object has an apostrophe.\<close>

definition plain :: "headerObj \<Rightarrow> bool" where
  "plain hs \<longleftrightarrow> list_all (\<lambda>kv. CHR 0x27 \<notin> set (fst kv) \<and> CHR 0x27 \<notin> set (snd kv)) hs"

section \<open>The user flag\<close>


section \<open>Outgoing headers\<close>

text \<open>
  The words of the specification for the outgoing headers \<open>out\<close> of a request whose
  descriptor has the headers \<open>orig\<close>: they are the descriptor's headers with \<open>Content-Type\<close>
  defaulting (\<open>application/json\<close> when the body is attached, that is non-empty with one of
  the methods \<open>POST\<close>, \<open>PUT\<close>, \<open>PATCH\<close>, and the descriptor's \<open>Content-Type\<close> is missing or
  empty) and bearer \<open>Authorization\<close> injection (\<open>Bearer\<close> and the token, when the
  authentication is of type \<open>bearer\<close> with a non-empty token), and with no other change.
\<close>

definition outgoingFrom :: "headerObj \<Rightarrow> 'h HttpRequestConfig \<Rightarrow> headerObj \<Rightarrow> bool" where
  "outgoingFrom orig config out \<longleftrightarrow>
     (\<forall>k. k \<noteq> ''Content-Type'' \<and> k \<noteq> ''Authorization'' \<longrightarrow> map_of out k = map_of orig k)
     \<and> map_of out ''Content-Type''
         = (if truthyStr (body config) \<and> httpMethod config \<in> set [''POST'', ''PUT'', ''PATCH'']
               \<and> falsyProp orig ''Content-Type''
            then Some ''application/json'' else map_of orig ''Content-Type'')
     \<and> (\<forall>a t. auth config = Some a \<and> authType a = bearer \<and> token a = Some t \<and> t \<noteq> [] \<longrightarrow>
           map_of out ''Authorization'' = Some (''Bearer '' @ t))
     \<and> ((\<nexists>a t. auth config = Some a \<and> authType a = bearer \<and> token a = Some t \<and> t \<noteq> []) \<longrightarrow>
           map_of out ''Authorization'' = map_of orig ''Authorization'')"

section \<open>Example inputs\<close>

definition getExample :: "ref HttpRequestConfig" where
  "getExample =
     \<lparr>url = ''https://example.com'', httpMethod = ''GET'', headers = None, body = None,
      auth = None, timeout = Some 30000, followRedirects = Some True\<rparr>"

text \<open>A transport that answers every request with \<open>204 No Content\<close>.\<close>

definition noContent :: transport where
  "noContent h a =
     Resolved \<lparr>r_status = 204, r_statusText = ''No Content'', r_headers = [], r_data = JStr []\<rparr>"

text \<open>
  A transport that rejects with an \<open>AxiosError\<close> which carries the response \<open>200 OK\<close> it
  had received.
\<close>

definition rejectedWith200 :: transport where
  "rejectedWith200 h a =
     RejectedAxios
       \<lparr>response = Some \<lparr>r_status = 200, r_statusText = ''OK'', r_headers = [], r_data = JStr []\<rparr>,
        request = True, message = ''Unexpected end of JSON input''\<rparr>"

text \<open>A transport that answers with \<open>200 OK\<close> and the JSON object \<open>{"a": 1}\<close>.\<close>

definition jsonAnswer :: transport where
  "jsonAnswer h a =
     Resolved \<lparr>r_status = 200, r_statusText = ''OK'', r_headers = [],
               r_data = JObj [(''a'', JNum 1)]\<rparr>"

text \<open>A transport that rejects with an \<open>AxiosError\<close> carrying a \<open>404\<close> with a text body.\<close>

definition notFoundError :: transport where
  "notFoundError h a =
     RejectedAxios
       \<lparr>response = Some \<lparr>r_status = 404, r_statusText = ''Not Found'', r_headers = [],
                           r_data = JStr ''Not Found''\<rparr>,
        request = True, message = ''Request failed with status code 404''\<rparr>"

text \<open>The arguments \<open>{"url": "https://example.com"}\<close> of a tool call.\<close>

definition urlOnly :: jsval where
  "urlOnly = JObj [(''url'', JStr ''https://example.com'')]"

text \<open>A \<open>POST\<close> without headers whose body is the empty string.\<close>

definition emptyBodyPost :: "ref HttpRequestConfig" where
  "emptyBodyPost =
     \<lparr>url = ''https://example.com'', httpMethod = ''POST'', headers = None, body = Some [],
      auth = None, timeout = Some 30000, followRedirects = Some True\<rparr>"

text \<open>A \<open>POST\<close> with a body whose headers are the object at address 0.\<close>

definition postWithHeaders :: "ref HttpRequestConfig" where
  "postWithHeaders =
     \<lparr>url = ''https://example.com'', httpMethod = ''POST'', headers = Some 0, body = Some ''x=1'',
      auth = None, timeout = Some 30000, followRedirects = Some True\<rparr>"

text \<open>The same with a bearer token.\<close>

definition bearerPost :: "ref HttpRequestConfig" where
  "bearerPost =
     \<lparr>url = ''https://example.com'', httpMethod = ''POST'', headers = Some 0, body = Some ''x=1'',
      auth = Some \<lparr>authType = bearer, username = None, password = None, token = Some ''abc123''\<rparr>,
      timeout = Some 30000, followRedirects = Some True\<rparr>"


definition twoQuotedHeaders :: string where
  "twoQuotedHeaders = ''curl -H \"Accept: text/plain\" -H \"X-Id: 7\" https://example.com''"

definition quotedUrl :: string where
  "quotedUrl = ''curl \"https://example.com\"''"

definition notCurl :: string where
  "notCurl = ''wget https://example.com''"

definition paddedCurl :: string where
  "paddedCurl = ''  CURL https://example.com/x ''"

definition curlxCommand :: string where
  "curlxCommand = ''curlx https://example.com''"

definition noUrlCommand :: string where
  "noUrlCommand = ''curl --help''"




text \<open>A heap with one header object.\<close>

definition acceptHeap :: heap where
  "acceptHeap = [[(''Accept'', ''text/plain''), (''Authorization'', ''Basic eDp5'')]]"

section \<open>Termination of the scanning loops\<close>

lemma rmatch_drop:
  "(j, t, d) \<in> set (rmatch r (i, s, c)) \<Longrightarrow> \<exists>k. j = i + k \<and> t = drop k s \<and> k \<le> length s"
proof (induction r arbitrary: i s c j t d)
  case (Lit l)
  then show ?case by (auto simp: litMatch_def split: if_splits)
next
  case (Cls p)
  then show ?case by (cases s) (auto split: if_splits intro: exI [of _ 1])
next
  case (Plus p)
  then obtain k where k: "1 \<le> k" "k \<le> length (takeWhile p s)" "j = i + k" "t = drop k s"
    by auto
  have "length (takeWhile p s) \<le> length s" by (rule length_takeWhile_le)
  with k show ?case by auto
next
  case Bol
  then show ?case by (auto split: if_splits)
next
  case (Seq a b)
  from Seq.prems obtain j' t' d' where m: "(j', t', d') \<in> set (rmatch a (i, s, c))"
    "(j, t, d) \<in> set (rmatch b (j', t', d'))"
    by auto
  from Seq.IH(1) [OF m(1)] obtain k1 where k1: "j' = i + k1" "t' = drop k1 s" "k1 \<le> length s"
    by auto
  from Seq.IH(2) [OF m(2)] obtain k2 where k2: "j = j' + k2" "t = drop k2 t'" "k2 \<le> length t'"
    by auto
  from k1 k2 show ?case by (intro exI [of _ "k1 + k2"]) (auto simp: add.commute)
next
  case (Alt a b)
  from Alt.prems have "(j, t, d) \<in> set (rmatch a (i, s, c)) \<or> (j, t, d) \<in> set (rmatch b (i, s, c))"
    by simp
  then show ?case using Alt.IH by blast
next
  case (Opt a)
  from Opt.prems have "(j, t, d) \<in> set (rmatch a (i, s, c)) \<or> (j, t, d) = (i, s, c)"
    by auto
  then show ?case using Opt.IH by (elim disjE) (blast, auto)
next
  case (Cap n a)
  from Cap.prems obtain d' where "(j, t, d') \<in> set (rmatch a (i, s, c))"
    by auto
  from Cap.IH [OF this] show ?case .
next
  case (Ref n)
  then show ?case by (auto simp: litMatch_def split: option.splits if_splits)
qed

lemma rmatch_length:
  "(j, t, d) \<in> set (rmatch r (i, s, c)) \<Longrightarrow> length t \<le> length s"
  by (drule rmatch_drop) auto

lemma rmatch_dash_shorter:
  assumes "(j, t, d) \<in> set (rmatch (Seq (Lit (x # l)) r) (i, s, c))"
  shows "length t < length s"
proof -
  from assms obtain j' t' d' where m: "(j', t', d') \<in> set (litMatch (x # l) (i, s, c))"
    "(j, t, d) \<in> set (rmatch r (j', t', d'))" by auto
  from m(1) have ms: "t' = drop (Suc (length l)) s" "Suc (length l) \<le> length s"
    by (auto simp: litMatch_def split: if_splits)
  from rmatch_length [OF m(2)] ms show ?thesis by auto
qed

lemma rmatch_Cap_shorter:
  assumes r: "\<And>j t d. (j, t, d) \<in> set (rmatch r (i, s, c)) \<Longrightarrow> length t < length s"
    and m: "(j, t, d) \<in> set (rmatch (Cap n r) (i, s, c))"
  shows "length t < length s"
proof -
  from m obtain d' where "(j, t, d') \<in> set (rmatch r (i, s, c))" by auto
  then show ?thesis by (rule r)
qed

lemma rexec_shorter:
  assumes r: "\<And>j t d i s c. (j, t, d) \<in> set (rmatch r (i, s, c)) \<Longrightarrow> length t < length s"
  shows "rexec r i s = Some (j, t, d) \<Longrightarrow> length t < length s"
proof (induction s arbitrary: i)
  case Nil
  then have "(j, t, d) \<in> set (rmatch (Cap 0 r) (i, [], []))"
    by (cases "rmatch (Cap 0 r) (i, [], [])") (simp_all del: rmatch.simps)
  then show ?case by (rule rmatch_Cap_shorter [rotated]) (rule r)
next
  case (Cons x xs)
  show ?case
  proof (cases "rmatch (Cap 0 r) (i, x # xs, [])")
    case Nil
    with Cons.prems have "rexec r (Suc i) xs = Some (j, t, d)" by simp
    from Cons.IH [OF this] show ?thesis by simp
  next
    case (Cons st sts)
    with Cons.prems have "(j, t, d) \<in> set (rmatch (Cap 0 r) (i, x # xs, []))" by simp
    then show ?thesis by (rule rmatch_Cap_shorter [rotated]) (rule r)
  qed
qed

lemma headerRegex_shorter:
  "rexec headerRegex i s = Some (j, t, d) \<Longrightarrow> length t < length s"
  by (rule rexec_shorter [of headerRegex]) (unfold headerRegex_def, erule rmatch_dash_shorter)

lemma dataRegex_shorter:
  "rexec dataRegex i s = Some (j, t, d) \<Longrightarrow> length t < length s"
proof (rule rexec_shorter [of dataRegex])
  fix j t d i s c
  assume "(j, t, d) \<in> set (rmatch dataRegex (i, s, c))"
  then show "length t < length s"
    unfolding dataRegex_def rmatch.simps(6) set_append Un_iff
    by (elim disjE) (erule rmatch_dash_shorter)+
qed

termination scanHeaders
  by (relation "measure (\<lambda>(i, s, acc). length s)") (auto dest: headerRegex_shorter)

termination scanData
  by (relation "measure (\<lambda>(i, s). length s)") (auto dest: dataRegex_shorter)

declare scanHeaders.simps [simp del]

declare scanData.simps [simp del]

section \<open>Evaluating letter case\<close>


lemma lowerChar_code [code]:
  "lowerChar (Char b0 b1 b2 b3 b4 b5 b6 b7) =
     (if \<not> b5 \<and> b6 \<and>
         ((\<not> b7 \<and> (b0 \<or> b1 \<or> b2 \<or> b3 \<or> b4) \<and> \<not> (b4 \<and> b3 \<and> (b2 \<or> (b1 \<and> b0))))
          \<or> (b7 \<and> \<not> (b0 \<and> b1 \<and> b2 \<and> b4)))
      then Char b0 b1 b2 b3 b4 True b6 b7
      else Char b0 b1 b2 b3 b4 b5 b6 b7)"
  by (cases b0; cases b1; cases b2; cases b3; cases b4; cases b5; cases b6; cases b7)
     (simp_all add: lowerChar_def char_of_eq_iff)

lemma isLetter_code [code]:
  "isLetter (Char b0 b1 b2 b3 b4 b5 b6 b7) \<longleftrightarrow>
     b6 \<and> \<not> b7 \<and> (b0 \<or> b1 \<or> b2 \<or> b3 \<or> b4) \<and> \<not> (b4 \<and> b3 \<and> (b2 \<or> (b1 \<and> b0)))"
  by (cases b0; cases b1; cases b2; cases b3; cases b4; cases b5; cases b6; cases b7)
     (simp_all add: isLetter_def upperChar_def char_of_eq_iff)

section \<open>Header objects and the heap\<close>

lemma byteLength_Nil: "byteLength [] = 0"
  by (simp add: byteLength_def)

lemma map_of_setProp:
  "k \<noteq> ''__proto__'' \<Longrightarrow> map_of (setProp obj k v) k' = (if k' = k then Some v else map_of obj k')"
  by (auto simp: setProp_def update_conv')

lemma deref_append_new: "deref (h @ [x]) (length h) = x"
  by (simp add: deref_def)

lemma deref_update: "r < length h \<Longrightarrow> deref (h[r := x]) r = x"
  by (simp add: deref_def)

section \<open>The success flag\<close>

text \<open>
  C1. Claimed: for every descriptor the executor returns, \<open>success\<close> equals
  \<open>200 \<le> status < 300\<close>, on the normal path and on the error-with-response path alike.
  The code computes \<open>success\<close> from the status only when the transport resolves;
  \<open>handleAxiosError\<close> sets \<open>success: false\<close> whatever the status of the response it carries.
  The counterexample is an \<open>AxiosError\<close> with a response of status 200.
\<close>

theorem error_path_success_counterexample:
  "\<not> (success (snd (executeRequest rejectedWith200 0 7 [] getExample))
       = (200 \<le> status (snd (executeRequest rejectedWith200 0 7 [] getExample))
          \<and> status (snd (executeRequest rejectedWith200 0 7 [] getExample)) < 300))"
  by (simp add: executeRequest_def buildResponse_def handleAxiosError_def case_prod_beta
      rejectedWith200_def)

text \<open>
  C1, amended. When the transport resolves with a response, \<open>status\<close> is its status and
  \<open>success\<close> equals \<open>200 \<le> status < 300\<close>, whatever the body; when the transport rejects,
  \<open>success\<close> is false, and \<open>status\<close> is the status of the response the error carries, or 0.
  So \<open>success\<close> implies a status in \<open>[200, 300)\<close> on every path.
\<close>

theorem executeRequest_success:
  "(case axios (fst (buildAxiosConfig h config)) (snd (buildAxiosConfig h config)) of
      Resolved r \<Rightarrow>
        status (snd (executeRequest axios startTime endTime h config)) = r_status r \<and>
        success (snd (executeRequest axios startTime endTime h config))
          = (200 \<le> r_status r \<and> r_status r < 300)
    | RejectedAxios e \<Rightarrow>
        \<not> success (snd (executeRequest axios startTime endTime h config)) \<and>
        status (snd (executeRequest axios startTime endTime h config))
          = (case response e of Some r \<Rightarrow> r_status r | None \<Rightarrow> 0)
    | RejectedOther m \<Rightarrow>
        \<not> success (snd (executeRequest axios startTime endTime h config)) \<and>
        status (snd (executeRequest axios startTime endTime h config)) = 0)
   \<and> (success (snd (executeRequest axios startTime endTime h config)) \<longrightarrow>
        200 \<le> status (snd (executeRequest axios startTime endTime h config)) \<and>
        status (snd (executeRequest axios startTime endTime h config)) < 300)"
  by (simp add: executeRequest_def buildResponse_def handleAxiosError_def case_prod_beta
      split: outcome.splits option.splits)

theorem executeRequest_success_witness:
  "success (snd (executeRequest noContent 0 7 [] getExample))
   \<and> status (snd (executeRequest noContent 0 7 [] getExample)) = 204
   \<and> resp_body (snd (executeRequest noContent 0 7 [] getExample)) = []"
proof -
  have "noContent (fst (buildAxiosConfig [] getExample)) (snd (buildAxiosConfig [] getExample))
      = Resolved \<lparr>r_status = 204, r_statusText = ''No Content'', r_headers = [], r_data = JStr []\<rparr>"
    by (simp add: noContent_def)
  moreover have "resp_body (snd (executeRequest noContent 0 7 [] getExample)) = []"
    by (simp add: executeRequest_def buildResponse_def case_prod_beta noContent_def
        formatBody_def)
  ultimately show ?thesis
    using executeRequest_success
      [where axios = noContent and h = "[]" and config = getExample
         and startTime = 0 and endTime = 7]
    by simp
qed

section \<open>The size of the body\<close>

text \<open>
  The MCP executor: \<open>bodySize\<close> is the UTF-8 length of the body it returns, on every path.
\<close>

lemma executeRequest_bodySize:
  "bodySize (snd (executeRequest axios startTime endTime h config))
     = byteLength (resp_body (snd (executeRequest axios startTime endTime h config)))"
  by (simp add: executeRequest_def buildResponse_def handleAxiosError_def case_prod_beta
      calculateBodySize_def byteLength_Nil split: outcome.splits option.splits)

text \<open>
  C2. Claimed: at every entry point, \<open>bodySize\<close> is the UTF-8 length of the body returned.
  The wrapper's \<open>executeHttpRequest\<close> returns the body of a JSON object pretty-printed and
  its size taken from the compact text: for \<open>{"a": 1}\<close> a body of 12 bytes with \<open>bodySize\<close>
  7. On an error with a response it returns the body with \<open>bodySize\<close> 0.
\<close>

theorem facade_bodySize_mismatch:
  "f_body (snd (executeHttpRequest jsonAnswer 0 7 [] getExample))
     = JStr (''{'' @ [CHR 0x0A] @ ''  '' @ [CHR 0x22] @ ''a'' @ [CHR 0x22] @ '': 1'' @ [CHR 0x0A] @ ''}'')
   \<and> byteLength (''{'' @ [CHR 0x0A] @ ''  '' @ [CHR 0x22] @ ''a'' @ [CHR 0x22] @ '': 1'' @ [CHR 0x0A] @ ''}'') = 12
   \<and> f_bodySize (snd (executeHttpRequest jsonAnswer 0 7 [] getExample)) = 7
   \<and> f_body (snd (executeHttpRequest notFoundError 0 7 [] getExample)) = JStr ''Not Found''
   \<and> byteLength ''Not Found'' = 9
   \<and> f_bodySize (snd (executeHttpRequest notFoundError 0 7 [] getExample)) = 0"
  by code_simp

section \<open>Defaults of the http_request tool\<close>

text \<open>
  What \<open>applyDefaults\<close> makes of an input with nothing but a URL: the defaults of the tool
  contract.
\<close>

lemma applyDefaults_url_only:
  "applyDefaults \<lparr>in_url = u, in_method = None, in_headers = None, in_body = None,
                   in_auth = None, in_timeout = None, in_followRedirects = None\<rparr>
     = \<lparr>url = u, httpMethod = ''GET'', headers = None, body = None, auth = None,
        timeout = Some 30000, followRedirects = Some True\<rparr>"
  by (simp add: applyDefaults_def)

text \<open>
  A call with a URL and a method and nothing else passes the schema and is executed with the
  time limit 30000 and with redirects followed.
\<close>

lemma http_request_defaults:
  assumes "isUrl u" "m \<in> set httpMethods"
  shows "HttpRequestInputSchema isUrl (JObj [(''url'', JStr u), (''method'', JStr m)])
           = Inr \<lparr>in_url = u, in_method = Some m, in_headers = None, in_body = None,
                  in_auth = None, in_timeout = None, in_followRedirects = None\<rparr>"
    and "applyDefaults \<lparr>in_url = u, in_method = Some m, in_headers = None, in_body = None,
                         in_auth = None, in_timeout = None, in_followRedirects = None\<rparr>
           = \<lparr>url = u, httpMethod = m, headers = None, body = None, auth = None,
              timeout = Some 30000, followRedirects = Some True\<rparr>"
  using assms
  by (auto simp: zUrl_def zEnum_def ap_def applyDefaults_def httpMethods_def)

text \<open>
  C3. Claimed: a call of \<open>http_request\<close> with only a URL is accepted and runs as a \<open>GET\<close>.
  \<open>HttpRequestInputSchema\<close> declares \<open>method\<close> without \<open>.optional()\<close>, so the call is
  refused as invalid input, the method being required, before \<open>applyDefaults\<close> is reached
  and without any request going out.
\<close>

theorem http_request_url_only_rejected:
  "callTool isUrl axios startTime endTime ''http_request'' urlOnly
     = ToolInvalidInput ((if isUrl ''https://example.com'' then [] else [([''url''], InvalidUrl)])
                         @ [([''method''], Required)])"
  by (simp add: callTool_def urlOnly_def zUrl_def zEnum_def ap_def)

section \<open>The errors of the parser\<close>

text \<open>What the URL pattern matches, in the words of the specification.\<close>

lemma litMatch_iff:
  "litMatch l (i, s, c) = (if ieqPrefix l s then [(i + length l, drop (length l) s, c)] else [])"
  by (simp add: litMatch_def ieqPrefix_def)

lemma ieqPrefix_append:
  "ieqPrefix (a @ b) w \<longleftrightarrow> ieqPrefix a w \<and> ieqPrefix b (drop (length a) w)"
proof -
  have "take (length a + length b) w = take (length a) w @ take (length b) (drop (length a) w)"
    by (simp add: take_add)
  then show ?thesis
    by (auto simp: ieqPrefix_def)
qed

lemma Plus_nonempty:
  "rmatch (Plus p) (i, s, c) \<noteq> [] \<longleftrightarrow> (case s of [] \<Rightarrow> False | x # xs \<Rightarrow> p x)"
  by (cases s) auto

lemma urlPattern_matches:
  "rmatch urlPattern (i, s, c) \<noteq> [] \<longleftrightarrow> beginsWithUrl s"
proof -
  have a: "ieqPrefix ''http://'' s \<longleftrightarrow> ieqPrefix ''http'' s \<and> ieqPrefix ''://'' (drop 4 s)"
    using ieqPrefix_append [of "''http''" "''://''" s] by (simp add: eval_nat_numeral)
  have b: "ieqPrefix ''https://'' s \<longleftrightarrow>
      ieqPrefix ''http'' s \<and> ieqPrefix ''s'' (drop 4 s) \<and> ieqPrefix ''://'' (drop 5 s)"
    using ieqPrefix_append [of "''http''" "''s://''" s]
      ieqPrefix_append [of "''s''" "''://''" "drop 4 s"] by (simp add: eval_nat_numeral)
  show ?thesis
    unfolding urlPattern_def beginsWithUrl_def a b
    by (auto simp: litMatch_iff Plus_nonempty eval_nat_numeral simp del: rmatch.simps(3) split: list.splits)
qed


lemma Cap_nonempty: "rmatch (Cap n r) (i, s, c) \<noteq> [] \<longleftrightarrow> rmatch r (i, s, c) \<noteq> []"
  by simp

lemma urlRegex_matches:
  "rmatch (Cap 0 urlRegex) (i, s, []) \<noteq> [] \<longleftrightarrow>
     (i = 0 \<and> beginsWithUrl s) \<or> (case s of [] \<Rightarrow> False | x # xs \<Rightarrow> isSpace x \<and> beginsWithUrl xs)"
proof -
  have "rmatch urlRegex (i, s, []) \<noteq> [] \<longleftrightarrow>
      (i = 0 \<and> rmatch urlPattern (i, s, []) \<noteq> [])
      \<or> (case s of [] \<Rightarrow> False | x # xs \<Rightarrow> isSpace x \<and> rmatch urlPattern (Suc i, xs, []) \<noteq> [])"
    unfolding urlRegex_def
    by (cases s) auto
  then show ?thesis
    unfolding Cap_nonempty urlPattern_matches .
qed

lemma urlTokenFrom_split:
  "urlTokenFrom b s \<longleftrightarrow> (b \<and> beginsWithUrl s) \<or> urlTokenFrom False s"
  by (cases s) (auto simp: beginsWithUrl_def ieqPrefix_def)

lemma rexec_urlRegex:
  "rexec urlRegex i s = None \<longleftrightarrow> \<not> urlTokenFrom (i = 0) s"
proof (induction s arbitrary: i)
  case Nil
  have "rmatch (Cap 0 urlRegex) (i, [], []) = []"
    using urlRegex_matches [of i "[]"] by (simp add: beginsWithUrl_def ieqPrefix_def)
  then show ?case by simp
next
  case (Cons x xs)
  show ?case
  proof (cases "rmatch (Cap 0 urlRegex) (i, x # xs, [])")
    case Nil
    then have no: "\<not> (i = 0 \<and> beginsWithUrl (x # xs))" "\<not> (isSpace x \<and> beginsWithUrl xs)"
      using urlRegex_matches [of i "x # xs"] by auto
    from Nil have "rexec urlRegex i (x # xs) = rexec urlRegex (Suc i) xs" by simp
    also have "\<dots> = None \<longleftrightarrow> \<not> urlTokenFrom False xs"
      using Cons.IH [of "Suc i"] by simp
    finally show ?thesis
      using no urlTokenFrom_split [of "isSpace x" xs] by auto
  next
    case (Cons st sts)
    then have yes: "(i = 0 \<and> beginsWithUrl (x # xs)) \<or> (isSpace x \<and> beginsWithUrl xs)"
      using urlRegex_matches [of i "x # xs"] by auto
    from Cons have "rexec urlRegex i (x # xs) \<noteq> None" by simp
    then show ?thesis
      using yes urlTokenFrom_split [of "isSpace x" xs] by auto
  qed
qed

lemma rexec_urlPattern:
  "rexec urlPattern i s = None \<longleftrightarrow> \<not> containsUrl s"
proof (induction s arbitrary: i)
  case Nil
  have "rmatch urlPattern (i, [], []) = []"
    using urlPattern_matches [of i "[]" "[]"] by (simp add: beginsWithUrl_def ieqPrefix_def)
  then show ?case by simp
next
  case (Cons x xs)
  show ?case
  proof (cases "rmatch (Cap 0 urlPattern) (i, x # xs, [])")
    case Nil
    then have "\<not> beginsWithUrl (x # xs)"
      using urlPattern_matches [of i "x # xs" "[]"] by (simp del: rmatch.simps(5))
    moreover from Nil have "rexec urlPattern i (x # xs) = rexec urlPattern (Suc i) xs" by simp
    ultimately show ?thesis using Cons.IH [of "Suc i"] by simp
  next
    case (Cons st sts)
    then have "beginsWithUrl (x # xs)"
      using urlPattern_matches [of i "x # xs" "[]"] Cap_nonempty [of 0 urlPattern i "x # xs" "[]"]
      by (simp del: rmatch.simps)
    moreover from Cons have "rexec urlPattern i (x # xs) \<noteq> None" by simp
    ultimately show ?thesis by simp
  qed
qed

text \<open>
  A URL token in other words: the string splits into a part that is empty or ends with white
  space and a rest that begins with a URL.
\<close>

lemma urlTokenFrom_iff:
  "urlTokenFrom b s \<longleftrightarrow>
     (b \<and> beginsWithUrl s)
     \<or> (\<exists>pre rest. s = pre @ rest \<and> pre \<noteq> [] \<and> isSpace (last pre) \<and> beginsWithUrl rest)"
proof (induction s arbitrary: b)
  case Nil
  then show ?case by (simp add: beginsWithUrl_def ieqPrefix_def)
next
  case (Cons x xs)
  have "(\<exists>pre rest. x # xs = pre @ rest \<and> pre \<noteq> [] \<and> isSpace (last pre) \<and> beginsWithUrl rest)
      \<longleftrightarrow> (isSpace x \<and> beginsWithUrl xs)
          \<or> (\<exists>pre rest. xs = pre @ rest \<and> pre \<noteq> [] \<and> isSpace (last pre) \<and> beginsWithUrl rest)"
    (is "?L \<longleftrightarrow> ?A \<or> ?B")
  proof
    assume ?L
    then obtain pre rest where p: "x # xs = pre @ rest" "pre \<noteq> []" "isSpace (last pre)"
      "beginsWithUrl rest" by blast
    then obtain pre' where pre: "pre = x # pre'" by (cases pre) auto
    show "?A \<or> ?B"
    proof (cases pre')
      case Nil
      with p pre show ?thesis by simp
    next
      case (Cons y ys)
      with p pre have "xs = pre' @ rest" "pre' \<noteq> []" "isSpace (last pre')" by auto
      with p(4) show ?thesis by blast
    qed
  next
    assume "?A \<or> ?B"
    then show ?L
    proof
      assume ?A
      then have "x # xs = [x] @ xs \<and> [x] \<noteq> [] \<and> isSpace (last [x]) \<and> beginsWithUrl xs" by simp
      then show ?L by blast
    next
      assume ?B
      then obtain pre rest where "xs = pre @ rest" "pre \<noteq> []" "isSpace (last pre)"
        "beginsWithUrl rest" by blast
      then have "x # xs = (x # pre) @ rest \<and> x # pre \<noteq> [] \<and> isSpace (last (x # pre))
          \<and> beginsWithUrl rest" by simp
      then show ?L by blast
    qed
  qed
  with Cons.IH [of "isSpace x"] show ?case by auto
qed

lemma containsUrlToken_iff:
  "containsUrlToken s \<longleftrightarrow>
     (\<exists>pre rest. s = pre @ rest \<and> (pre = [] \<or> isSpace (last pre)) \<and> beginsWithUrl rest)"
  (is "_ \<longleftrightarrow> ?R")
proof
  assume "containsUrlToken s"
  then consider "beginsWithUrl s"
    | pre rest where "s = pre @ rest" "pre \<noteq> []" "isSpace (last pre)" "beginsWithUrl rest"
    unfolding containsUrlToken_def urlTokenFrom_iff [of True s] by blast
  then show ?R
  proof cases
    case 1
    then have "s = [] @ s \<and> ([] = [] \<or> isSpace (last [])) \<and> beginsWithUrl s" by simp
    then show ?thesis by blast
  next
    case 2
    then show ?thesis by blast
  qed
next
  assume ?R
  then obtain pre rest where r: "s = pre @ rest" "pre = [] \<or> isSpace (last pre)"
    "beginsWithUrl rest" by blast
  show "containsUrlToken s"
  proof (cases "pre = []")
    case True
    with r have "beginsWithUrl s" by simp
    then show ?thesis
      unfolding containsUrlToken_def urlTokenFrom_iff [of True s] by blast
  next
    case False
    with r show ?thesis
      unfolding containsUrlToken_def urlTokenFrom_iff [of True s] by blast
  qed
qed

lemma urlTokenFrom_containsUrl: "urlTokenFrom b s \<Longrightarrow> containsUrl s"
  by (induction s arbitrary: b) auto

text \<open>
  C4. Claimed: the parser, and the wrapper's parser with it, raises \<open>InvalidCommand\<close>
  exactly when the trimmed string does not begin with the token \<open>curl\<close>, otherwise
  \<open>MissingUrl\<close> exactly when the string has no absolute http or https URL, and returns a
  descriptor otherwise. The wrapper's \<open>parseCurlCommand\<close> has neither check: for \<open>hello\<close>
  the parser of the MCP server raises \<open>InvalidCommand\<close>, while the wrapper's parser returns a
  descriptor with the URL \<open>''\<close> and the endpoint answers 200 with the outcome of the request.
  The parser of the MCP server tests a prefix, not a token: \<open>curlx https://example.com\<close> is
  parsed. And it raises \<open>MissingUrl\<close> for \<open>curl "https://example.com"\<close>, a command with a
  URL, which the wrapper's parser finds.
\<close>

theorem parser_errors_counterexample:
  "parseCurlCommand ''hello'' = Inl InvalidCommand
   \<and> url (facadeParseCurlCommand ''hello'') = []
   \<and> code (api_execute_curl noContent 0 7 (JObj [(''curlCommand'', JStr ''hello'')])) = 200
   \<and> parseCurlCommand curlxCommand
       = Inr \<lparr>url = ''https://example.com'', httpMethod = ''GET'', headers = Some [],
              body = None, auth = None, timeout = Some 30000, followRedirects = Some True\<rparr>
   \<and> parseCurlCommand quotedUrl = Inl MissingUrl
   \<and> url (facadeParseCurlCommand quotedUrl) = ''https://example.com''"
  by code_simp

text \<open>
  C4, amended. The parser of the MCP server raises \<open>InvalidCommand\<close> exactly when the
  trimmed string does not start with the four letters \<open>curl\<close> in any letter case. For a
  trimmed string that starts so, it raises \<open>MissingUrl\<close> when the string has no http or
  https URL anywhere, and it returns a descriptor when such a URL stands at the beginning
  of the string or directly after a white space character. The wrapper's parser raises
  nothing: it returns a descriptor for every string, with the URL \<open>''\<close> when the string has
  no URL anywhere.
\<close>

theorem parseCurlCommand_errors:
  "(parseCurlCommand s = Inl InvalidCommand \<longleftrightarrow> \<not> startsWith (toLowerCase (trim s)) ''curl'')
   \<and> (startsWith (toLowerCase (trim s)) ''curl'' \<and> \<not> containsUrl (trim s) \<longrightarrow>
        parseCurlCommand s = Inl MissingUrl)
   \<and> (startsWith (toLowerCase (trim s)) ''curl'' \<and> containsUrlToken (trim s) \<longrightarrow>
        (\<exists>config. parseCurlCommand s = Inr config))
   \<and> (\<not> containsUrl s \<longrightarrow> url (facadeParseCurlCommand s) = [])"
proof -
  have u: "rexec urlRegex 0 (trim s) = None \<longleftrightarrow> \<not> containsUrlToken (trim s)"
    using rexec_urlRegex [of 0 "trim s"] by (simp add: containsUrlToken_def)
  have t: "containsUrlToken (trim s) \<Longrightarrow> containsUrl (trim s)"
    unfolding containsUrlToken_def by (rule urlTokenFrom_containsUrl)
  have f: "\<not> containsUrl s \<longrightarrow> url (facadeParseCurlCommand s) = []"
    using rexec_urlPattern [of 0 s] by (auto simp: facadeParseCurlCommand_def Let_def)
  show ?thesis
    using u t f by (auto simp: parseCurlCommand_def Let_def split: option.splits)
qed

theorem parseCurlCommand_errors_witness:
  "parseCurlCommand notCurl = Inl InvalidCommand
   \<and> parseCurlCommand noUrlCommand = Inl MissingUrl
   \<and> (\<exists>config. parseCurlCommand paddedCurl = Inr config)
   \<and> url (facadeParseCurlCommand ''hello'') = []"
proof -
  have a: "\<not> startsWith (toLowerCase (trim notCurl)) ''curl''"
    by code_simp
  have b: "startsWith (toLowerCase (trim noUrlCommand)) ''curl''"
    "\<not> containsUrl (trim noUrlCommand)"
    by code_simp+
  have c: "startsWith (toLowerCase (trim paddedCurl)) ''curl''" "containsUrlToken (trim paddedCurl)"
    by code_simp+
  have d: "\<not> containsUrl ''hello''"
    by code_simp
  show ?thesis
    using a b c d parseCurlCommand_errors [of notCurl] parseCurlCommand_errors [of noUrlCommand]
      parseCurlCommand_errors [of paddedCurl] parseCurlCommand_errors [of "''hello''"]
    by blast
qed

section \<open>Basic authentication and the bearer header\<close>



























section \<open>Attaching the body\<close>

text \<open>
  C6. Claimed: the body is attached exactly when it is present and the method is \<open>POST\<close>,
  \<open>PUT\<close> or \<open>PATCH\<close>, and \<open>Content-Type: application/json\<close> is then added exactly when no
  header with the key \<open>Content-Type\<close> exists. Both tests of the code are tests of truth: a body
  that is the empty string is present and not attached, and a \<open>Content-Type\<close> header whose
  value is the empty string exists and is replaced.
\<close>

theorem body_attachment_counterexample:
  "\<not> ((ax_data (snd (buildAxiosConfig [] emptyBodyPost)) \<noteq> None)
        = (body emptyBodyPost \<noteq> None
           \<and> httpMethod emptyBodyPost \<in> set [''POST'', ''PUT'', ''PATCH'']))
   \<and> map_of (deref [[(''Content-Type'', [])]] 0) ''Content-Type'' = Some []
   \<and> map_of (deref (fst (buildAxiosConfig [[(''Content-Type'', [])]] postWithHeaders))
               (ax_headers (snd (buildAxiosConfig [[(''Content-Type'', [])]] postWithHeaders))))
        ''Content-Type'' = Some ''application/json''"
  by (simp add: buildAxiosConfig_def emptyBodyPost_def postWithHeaders_def truthyStr_def Let_def
      falsyProp_def deref_def setProp_def bearerToken_def)

text \<open>
  C6, amended. The body is the outgoing payload exactly when it is a non-empty string and the
  method is \<open>POST\<close>, \<open>PUT\<close> or \<open>PATCH\<close> (compared as written, in capitals); no other method
  attaches a body. In that case the outgoing \<open>Content-Type\<close> is \<open>application/json\<close> exactly
  when the descriptor's headers have no \<open>Content-Type\<close> key or have it with the empty string
  as value; in every other case the outgoing \<open>Content-Type\<close> is the descriptor's.
\<close>

theorem buildAxiosConfig_body:
  "ax_data (snd (buildAxiosConfig h config))
     = (if truthyStr (body config) \<and> httpMethod config \<in> set [''POST'', ''PUT'', ''PATCH'']
        then body config else None)
   \<and> map_of (deref (fst (buildAxiosConfig h config)) (ax_headers (snd (buildAxiosConfig h config))))
        ''Content-Type''
      = (if truthyStr (body config) \<and> httpMethod config \<in> set [''POST'', ''PUT'', ''PATCH'']
            \<and> falsyProp (case headers config of None \<Rightarrow> [] | Some r \<Rightarrow> deref h r) ''Content-Type''
         then Some ''application/json''
         else map_of (case headers config of None \<Rightarrow> [] | Some r \<Rightarrow> deref h r) ''Content-Type'')"
  by (auto simp: buildAxiosConfig_def Let_def deref_append_new deref_update map_of_setProp
      split: option.splits)

theorem buildAxiosConfig_body_witness:
  "ax_data (snd (buildAxiosConfig [[(''Accept'', ''text/plain'')]] postWithHeaders)) = Some ''x=1''
   \<and> map_of (deref (fst (buildAxiosConfig [[(''Accept'', ''text/plain'')]] postWithHeaders))
               (ax_headers (snd (buildAxiosConfig [[(''Accept'', ''text/plain'')]] postWithHeaders))))
        ''Content-Type'' = Some ''application/json''
   \<and> ax_data (snd (buildAxiosConfig [] getExample)) = None
   \<and> map_of (deref (fst (buildAxiosConfig [] getExample))
               (ax_headers (snd (buildAxiosConfig [] getExample))))
        ''Content-Type'' = None"
  using buildAxiosConfig_body [of "[[(''Accept'', ''text/plain'')]]" postWithHeaders]
    buildAxiosConfig_body [of "[]" getExample]
  by (simp add: postWithHeaders_def getExample_def truthyStr_def falsyProp_def deref_def)

section \<open>The descriptor after the call\<close>

text \<open>What the two writes of an executor make of a header object.\<close>

lemma bearerToken_Some:
  "bearerToken a = Some t \<longleftrightarrow>
     (\<exists>c. a = Some c \<and> authType c = bearer \<and> token c = Some t \<and> t \<noteq> [])"
  by (auto simp: bearerToken_def split: option.splits)

lemma bearerToken_None:
  "bearerToken a = None \<longleftrightarrow>
     (\<nexists>c t. a = Some c \<and> authType c = bearer \<and> token c = Some t \<and> t \<noteq> [])"
  by (auto simp: bearerToken_def split: option.splits)

lemma basic_not_bearer: "basicCredentials a \<noteq> None \<Longrightarrow> bearerToken a = None"
  by (auto simp: basicCredentials_def bearerToken_def split: option.splits)

lemma outgoingFrom_writes:
  "outgoingFrom orig config
     (let o1 = (if (truthyStr (body config) \<and> httpMethod config \<in> set [''POST'', ''PUT'', ''PATCH''])
                   \<and> falsyProp orig ''Content-Type''
                then setProp orig ''Content-Type'' ''application/json'' else orig)
      in case bearerToken (auth config) of None \<Rightarrow> o1
         | Some t \<Rightarrow> setProp o1 ''Authorization'' (''Bearer '' @ t))"
proof (cases "bearerToken (auth config)")
  case None
  then show ?thesis
    using bearerToken_None [of "auth config"]
    by (auto simp: outgoingFrom_def Let_def map_of_setProp)
next
  case (Some t)
  then show ?thesis
    using bearerToken_Some [of "auth config" t]
    by (auto simp: outgoingFrom_def Let_def map_of_setProp)
qed

lemma buildAxiosConfig_outgoing:
  "outgoingFrom (case headers config of None \<Rightarrow> [] | Some r \<Rightarrow> deref h r) config
     (deref (fst (buildAxiosConfig h config)) (length h))"
proof -
  have "deref (fst (buildAxiosConfig h config)) (length h)
      = (let orig = (case headers config of None \<Rightarrow> [] | Some r \<Rightarrow> deref h r);
             o1 = (if (truthyStr (body config) \<and> httpMethod config \<in> set [''POST'', ''PUT'', ''PATCH''])
                      \<and> falsyProp orig ''Content-Type''
                   then setProp orig ''Content-Type'' ''application/json'' else orig)
         in case bearerToken (auth config) of None \<Rightarrow> o1
            | Some t \<Rightarrow> setProp o1 ''Authorization'' (''Bearer '' @ t))"
    by (auto simp: buildAxiosConfig_def Let_def deref_append_new deref_def split: option.splits)
  then show ?thesis
    using outgoingFrom_writes [of "case headers config of None \<Rightarrow> [] | Some r \<Rightarrow> deref h r" config]
    by (simp add: Let_def)
qed

lemma facadeBuildAxiosConfig_outgoing:
  assumes "case headers config of None \<Rightarrow> True | Some r \<Rightarrow> r < length h"
  shows "outgoingFrom (case headers config of None \<Rightarrow> [] | Some r \<Rightarrow> deref h r) config
     (deref (fst (facadeBuildAxiosConfig h config)) (ax_headers (snd (facadeBuildAxiosConfig h config))))"
proof -
  have "deref (fst (facadeBuildAxiosConfig h config)) (ax_headers (snd (facadeBuildAxiosConfig h config)))
      = (let orig = (case headers config of None \<Rightarrow> [] | Some r \<Rightarrow> deref h r);
             o1 = (if (truthyStr (body config) \<and> httpMethod config \<in> set [''POST'', ''PUT'', ''PATCH''])
                      \<and> falsyProp orig ''Content-Type''
                   then setProp orig ''Content-Type'' ''application/json'' else orig)
         in case bearerToken (auth config) of None \<Rightarrow> o1
            | Some t \<Rightarrow> setProp o1 ''Authorization'' (''Bearer '' @ t))"
    using assms basic_not_bearer [of "auth config"]
    by (auto simp: facadeBuildAxiosConfig_def Let_def deref_append_new deref_def split: option.splits)
  then show ?thesis
    using outgoingFrom_writes [of "case headers config of None \<Rightarrow> [] | Some r \<Rightarrow> deref h r" config]
    by (simp add: Let_def)
qed

lemma fst_executeRequest:
  "fst (executeRequest axios startTime endTime h config) = fst (buildAxiosConfig h config)"
  by (simp add: executeRequest_def case_prod_beta)

lemma fst_executeHttpRequest:
  "fst (executeHttpRequest axios startTime endTime h config) = fst (facadeBuildAxiosConfig h config)"
  by (simp add: executeHttpRequest_def case_prod_beta)

text \<open>
  C7. Claimed: both executors build the outgoing headers as a copy and leave the descriptor's
  headers unchanged. The wrapper's \<open>executeHttpRequest\<close> takes \<open>config.headers || {}\<close>: the
  descriptor's own object, into which the default \<open>Content-Type\<close> and the bearer
  \<open>Authorization\<close> are then written.
\<close>

theorem facade_mutates_headers_counterexample:
  "\<not> (deref (fst (executeHttpRequest noContent 0 7 [[]] postWithHeaders)) 0 = deref [[]] 0)
   \<and> map_of (deref [[]] 0) ''Authorization'' = None
   \<and> map_of (deref (fst (executeHttpRequest noContent 0 7 [[]] bearerPost)) 0) ''Authorization''
       = Some ''Bearer abc123''"
  by (simp add: executeHttpRequest_def facadeBuildAxiosConfig_def postWithHeaders_def
      bearerPost_def Let_def truthyStr_def falsyProp_def deref_def setProp_def
      basicCredentials_def bearerToken_def)

text \<open>
  C7, amended. The MCP executor allocates a new object for the outgoing headers. It holds
  the descriptor's headers with \<open>Content-Type\<close> defaulting and bearer \<open>Authorization\<close>
  injection applied and with no other change, and every object that existed before the call,
  the descriptor's headers among them, is unchanged after it. The wrapper's executor makes no
  copy. When the descriptor has a header object, that object is the outgoing headers:
  \<open>Content-Type\<close> defaulting and bearer \<open>Authorization\<close> injection are written into it, so
  that after the call it holds the outgoing headers, and no other object is changed. When
  the descriptor has none, the wrapper's executor allocates a new object, which holds the
  defaulted \<open>Content-Type\<close> and the injected \<open>Authorization\<close> and nothing else, and the objects
  that existed are unchanged.
\<close>

theorem executeRequest_frame:
  "take (length h) (fst (executeRequest axios startTime endTime h config)) = h
   \<and> length (fst (executeRequest axios startTime endTime h config)) = Suc (length h)
   \<and> ax_headers (snd (buildAxiosConfig h config)) = length h
   \<and> outgoingFrom (case headers config of None \<Rightarrow> [] | Some r \<Rightarrow> deref h r) config
        (deref (fst (executeRequest axios startTime endTime h config)) (length h))
   \<and> (headers config = None \<longrightarrow>
        take (length h) (fst (executeHttpRequest axios startTime endTime h config)) = h
        \<and> length (fst (executeHttpRequest axios startTime endTime h config)) = Suc (length h)
        \<and> ax_headers (snd (facadeBuildAxiosConfig h config)) = length h
        \<and> outgoingFrom [] config
            (deref (fst (executeHttpRequest axios startTime endTime h config)) (length h)))
   \<and> (\<forall>r. headers config = Some r \<and> r < length h \<longrightarrow>
        ax_headers (snd (facadeBuildAxiosConfig h config)) = r
        \<and> length (fst (executeHttpRequest axios startTime endTime h config)) = length h
        \<and> (\<forall>r'. r' \<noteq> r \<longrightarrow>
              deref (fst (executeHttpRequest axios startTime endTime h config)) r' = deref h r')
        \<and> outgoingFrom (deref h r) config
            (deref (fst (executeHttpRequest axios startTime endTime h config)) r))"
proof -
  have mcp: "take (length h) (fst (executeRequest axios startTime endTime h config)) = h"
    "length (fst (executeRequest axios startTime endTime h config)) = Suc (length h)"
    by (simp_all add: executeRequest_def buildAxiosConfig_def Let_def case_prod_beta
        split: option.splits)
  have copied: "outgoingFrom (case headers config of None \<Rightarrow> [] | Some r \<Rightarrow> deref h r) config
        (deref (fst (executeRequest axios startTime endTime h config)) (length h))"
    unfolding fst_executeRequest by (rule buildAxiosConfig_outgoing)
  have fresh: "ax_headers (snd (buildAxiosConfig h config)) = length h"
    by (simp add: buildAxiosConfig_def Let_def)
  have nohdrs: "take (length h) (fst (executeHttpRequest axios startTime endTime h config)) = h
      \<and> length (fst (executeHttpRequest axios startTime endTime h config)) = Suc (length h)
      \<and> ax_headers (snd (facadeBuildAxiosConfig h config)) = length h
      \<and> outgoingFrom [] config
          (deref (fst (executeHttpRequest axios startTime endTime h config)) (length h))"
    if "headers config = None"
  proof -
    have a: "ax_headers (snd (facadeBuildAxiosConfig h config)) = length h"
      using that by (simp add: facadeBuildAxiosConfig_def Let_def)
    have b: "take (length h) (fst (facadeBuildAxiosConfig h config)) = h"
      "length (fst (facadeBuildAxiosConfig h config)) = Suc (length h)"
      using that by (simp_all add: facadeBuildAxiosConfig_def Let_def split: option.splits)
    from facadeBuildAxiosConfig_outgoing [where config = config and h = h] a b that show ?thesis
      by (simp add: fst_executeHttpRequest)
  qed
  have shared: "ax_headers (snd (facadeBuildAxiosConfig h config)) = r
      \<and> length (fst (executeHttpRequest axios startTime endTime h config)) = length h
      \<and> (\<forall>r'. r' \<noteq> r \<longrightarrow>
            deref (fst (executeHttpRequest axios startTime endTime h config)) r' = deref h r')
      \<and> outgoingFrom (deref h r) config
          (deref (fst (executeHttpRequest axios startTime endTime h config)) r)"
    if "headers config = Some r" "r < length h" for r
  proof -
    have a: "ax_headers (snd (facadeBuildAxiosConfig h config)) = r"
      using that by (simp add: facadeBuildAxiosConfig_def Let_def)
    have b: "length (fst (facadeBuildAxiosConfig h config)) = length h"
      "\<forall>r'. r' \<noteq> r \<longrightarrow> deref (fst (facadeBuildAxiosConfig h config)) r' = deref h r'"
      using that by (simp_all add: facadeBuildAxiosConfig_def Let_def deref_def split: option.splits)
    from facadeBuildAxiosConfig_outgoing [where config = config and h = h] a b that show ?thesis
      by (simp add: fst_executeHttpRequest)
  qed
  from mcp copied fresh nohdrs shared show ?thesis by blast
qed

theorem executeRequest_frame_witness:
  "take 1 (fst (executeRequest noContent 0 7 acceptHeap bearerPost)) = acceptHeap
   \<and> ax_headers (snd (buildAxiosConfig acceptHeap bearerPost)) = 1
   \<and> map_of (deref (fst (executeRequest noContent 0 7 acceptHeap bearerPost)) 1) ''Accept''
       = Some ''text/plain''
   \<and> map_of (deref (fst (executeRequest noContent 0 7 acceptHeap bearerPost)) 1) ''Content-Type''
       = Some ''application/json''
   \<and> map_of (deref (fst (executeRequest noContent 0 7 acceptHeap bearerPost)) 1) ''Authorization''
       = Some ''Bearer abc123''
   \<and> map_of (deref (fst (executeRequest noContent 0 7 acceptHeap postWithHeaders)) 1)
        ''Authorization'' = Some ''Basic eDp5''
   \<and> ax_headers (snd (facadeBuildAxiosConfig acceptHeap bearerPost)) = 0
   \<and> map_of (deref (fst (executeHttpRequest noContent 0 7 acceptHeap bearerPost)) 0)
        ''Content-Type'' = Some ''application/json''
   \<and> map_of (deref (fst (executeHttpRequest noContent 0 7 acceptHeap bearerPost)) 0)
        ''Authorization'' = Some ''Bearer abc123''
   \<and> map_of (deref (fst (executeHttpRequest noContent 0 7 acceptHeap getExample)) 1)
        ''Authorization'' = None"
proof -
  have len: "length acceptHeap = 1" "deref acceptHeap 0 = hd acceptHeap" "(0::nat) < 1"
    by (simp_all add: acceptHeap_def deref_def)
  have hb: "headers bearerPost = Some 0" and hp: "headers postWithHeaders = Some 0"
    and hg: "headers getExample = None"
    by (simp_all add: bearerPost_def postWithHeaders_def getExample_def)
  from executeRequest_frame
    [where h = acceptHeap and config = bearerPost and axios = noContent
       and startTime = 0 and endTime = 7]
  have b: "take 1 (fst (executeRequest noContent 0 7 acceptHeap bearerPost)) = acceptHeap"
    "ax_headers (snd (buildAxiosConfig acceptHeap bearerPost)) = 1"
    "outgoingFrom (hd acceptHeap) bearerPost
       (deref (fst (executeRequest noContent 0 7 acceptHeap bearerPost)) 1)"
    "ax_headers (snd (facadeBuildAxiosConfig acceptHeap bearerPost)) = 0"
    "outgoingFrom (hd acceptHeap) bearerPost
       (deref (fst (executeHttpRequest noContent 0 7 acceptHeap bearerPost)) 0)"
    by (simp_all add: len hb)
  from executeRequest_frame
    [where h = acceptHeap and config = postWithHeaders and axios = noContent
       and startTime = 0 and endTime = 7]
  have p: "outgoingFrom (hd acceptHeap) postWithHeaders
       (deref (fst (executeRequest noContent 0 7 acceptHeap postWithHeaders)) 1)"
    by (simp add: len hp)
  from executeRequest_frame
    [where h = acceptHeap and config = getExample and axios = noContent
       and startTime = 0 and endTime = 7]
  have g: "outgoingFrom [] getExample
       (deref (fst (executeHttpRequest noContent 0 7 acceptHeap getExample)) 1)"
    by (simp add: len hg)
  from b(3) have "map_of (deref (fst (executeRequest noContent 0 7 acceptHeap bearerPost)) 1)
        ''Accept'' = Some ''text/plain''"
    "map_of (deref (fst (executeRequest noContent 0 7 acceptHeap bearerPost)) 1) ''Content-Type''
       = Some ''application/json''"
    "map_of (deref (fst (executeRequest noContent 0 7 acceptHeap bearerPost)) 1) ''Authorization''
       = Some ''Bearer abc123''"
    by (simp_all add: outgoingFrom_def acceptHeap_def bearerPost_def falsyProp_def truthyStr_def)
  moreover from p have "map_of (deref (fst (executeRequest noContent 0 7 acceptHeap postWithHeaders)) 1)
        ''Authorization'' = Some ''Basic eDp5''"
    by (simp add: outgoingFrom_def acceptHeap_def postWithHeaders_def)
  moreover from b(5) have "map_of (deref (fst (executeHttpRequest noContent 0 7 acceptHeap bearerPost)) 0)
        ''Content-Type'' = Some ''application/json''"
    "map_of (deref (fst (executeHttpRequest noContent 0 7 acceptHeap bearerPost)) 0)
        ''Authorization'' = Some ''Bearer abc123''"
    by (simp_all add: outgoingFrom_def acceptHeap_def bearerPost_def falsyProp_def truthyStr_def)
  moreover from g have "map_of (deref (fst (executeHttpRequest noContent 0 7 acceptHeap getExample)) 1)
        ''Authorization'' = None"
    by (simp add: outgoingFrom_def getExample_def)
  ultimately show ?thesis using b(1,2,4) by simp
qed

section \<open>Replies of the HTTP wrapper\<close>

text \<open>
  C8. Claimed: a request without the required field is answered with status 400 and a JSON
  body that has \<open>success: false\<close>. The body of the 400 reply is \<open>{ error: '... is required' }\<close>
  and nothing else.
\<close>

theorem missing_field_reply_counterexample:
  "code (api_execute_curl noContent 0 7 (JObj [])) = 400
   \<and> payload (api_execute_curl noContent 0 7 (JObj []))
       = JObj [(''error'', JStr ''curlCommand is required'')]
   \<and> getField (payload (api_execute_curl noContent 0 7 (JObj []))) ''success'' \<noteq> JBool False"
  by (simp add: api_execute_curl_def requiredError_def)

text \<open>
  C8, amended. A request body without a truthy \<open>curlCommand\<close> (respectively \<open>url\<close>) is
  answered with status 400 and the JSON body \<open>{"error": "curlCommand is required"}\<close>
  (respectively \<open>{"error": "url is required"}\<close>), which has no \<open>success\<close> field, and status
  400 is sent for no other request. Every error raised inside a handler yields status 500
  with a JSON body that has \<open>success: false\<close>: in \<open>/api/execute_curl\<close> for a request body that
  is \<open>undefined\<close> or \<open>null\<close> and for a truthy \<open>curlCommand\<close> that is not a string, in
  \<open>/api/http_request\<close> for a request body that is \<open>undefined\<close>; status 500 is sent for no
  other request, and every other request is answered with status 200.
\<close>

theorem facade_replies:
  "(reqBody \<noteq> JUndefined \<and> reqBody \<noteq> JNull \<and> \<not> truthy (getField reqBody ''curlCommand'') \<longrightarrow>
       api_execute_curl axios startTime endTime reqBody
         = \<lparr>code = 400, payload = JObj [(''error'', JStr ''curlCommand is required'')]\<rparr>)
   \<and> (\<not> truthyStr (b_url b) \<longrightarrow>
       api_http_request axios startTime endTime (Some b)
         = \<lparr>code = 400, payload = JObj [(''error'', JStr ''url is required'')]\<rparr>)
   \<and> (reqBody = JUndefined \<or> reqBody = JNull
        \<or> (truthy (getField reqBody ''curlCommand'')
            \<and> (\<forall>s. getField reqBody ''curlCommand'' \<noteq> JStr s)) \<longrightarrow>
       code (api_execute_curl axios startTime endTime reqBody) = 500
       \<and> getField (payload (api_execute_curl axios startTime endTime reqBody)) ''success''
           = JBool False)
   \<and> code (api_http_request axios startTime endTime None) = 500
   \<and> getField (payload (api_http_request axios startTime endTime None)) ''success'' = JBool False
   \<and> (code (api_execute_curl axios startTime endTime reqBody) = 500 \<longleftrightarrow>
       reqBody = JUndefined \<or> reqBody = JNull
       \<or> (truthy (getField reqBody ''curlCommand'')
           \<and> (\<forall>s. getField reqBody ''curlCommand'' \<noteq> JStr s)))
   \<and> (code (api_http_request axios startTime endTime optBody) = 500 \<longleftrightarrow> optBody = None)
   \<and> (code (api_execute_curl axios startTime endTime reqBody) = 400 \<longleftrightarrow>
       reqBody \<noteq> JUndefined \<and> reqBody \<noteq> JNull \<and> \<not> truthy (getField reqBody ''curlCommand''))
   \<and> (code (api_http_request axios startTime endTime optBody) = 400 \<longleftrightarrow>
       (\<exists>b'. optBody = Some b' \<and> \<not> truthyStr (b_url b')))
   \<and> code (api_execute_curl axios startTime endTime reqBody) \<in> {200, 400, 500}
   \<and> code (api_http_request axios startTime endTime optBody) \<in> {200, 400, 500}
   \<and> (code (api_execute_curl axios startTime endTime reqBody) = 500 \<longrightarrow>
       getField (payload (api_execute_curl axios startTime endTime reqBody)) ''success'' = JBool False)
   \<and> (code (api_http_request axios startTime endTime optBody) = 500 \<longrightarrow>
       getField (payload (api_http_request axios startTime endTime optBody)) ''success'' = JBool False)"
proof -
  have c400: "reqBody \<noteq> JUndefined \<and> reqBody \<noteq> JNull \<and> \<not> truthy (getField reqBody ''curlCommand'') \<longrightarrow>
       api_execute_curl axios startTime endTime reqBody
         = \<lparr>code = 400, payload = JObj [(''error'', JStr ''curlCommand is required'')]\<rparr>"
    by (simp add: api_execute_curl_def requiredError_def Let_def)
  have h400: "\<not> truthyStr (b_url b) \<longrightarrow>
       api_http_request axios startTime endTime (Some b)
         = \<lparr>code = 400, payload = JObj [(''error'', JStr ''url is required'')]\<rparr>"
    by (simp add: api_http_request_def requiredError_def truthyStr_def split: option.splits)
  have ccode: "code (api_execute_curl axios startTime endTime reqBody) =
      (if reqBody = JUndefined \<or> reqBody = JNull
          \<or> (truthy (getField reqBody ''curlCommand'')
              \<and> (\<forall>s. getField reqBody ''curlCommand'' \<noteq> JStr s)) then 500
       else if \<not> truthy (getField reqBody ''curlCommand'') then 400 else 200)"
    by (auto simp: api_execute_curl_def requiredError_def internalError_def Let_def
        case_prod_beta split: jsval.splits)
  have hcode: "code (api_http_request axios startTime endTime optBody) =
      (case optBody of None \<Rightarrow> 500
       | Some b' \<Rightarrow> if \<not> truthyStr (b_url b') then 400 else 200)"
    by (auto simp: api_http_request_def requiredError_def internalError_def Let_def
        truthyStr_def case_prod_beta split: option.splits)
  have c500: "code (api_execute_curl axios startTime endTime reqBody) = 500 \<longrightarrow>
       getField (payload (api_execute_curl axios startTime endTime reqBody)) ''success'' = JBool False"
    by (auto simp: api_execute_curl_def requiredError_def internalError_def Let_def
        case_prod_beta split: jsval.splits)
  have h500: "code (api_http_request axios startTime endTime ob) = 500 \<longrightarrow>
       getField (payload (api_http_request axios startTime endTime ob)) ''success'' = JBool False"
    for ob
    by (auto simp: api_http_request_def requiredError_def internalError_def Let_def
        case_prod_beta split: option.splits)
  have hnone: "code (api_http_request axios startTime endTime None) = 500"
    by (simp add: api_http_request_def internalError_def)
  show ?thesis
    using c400 h400 c500 h500 [of optBody] h500 [of None] hnone
    by (simp add: ccode hcode split: option.splits)
qed

theorem facade_replies_witness:
  "api_execute_curl noContent 0 7 (JObj [(''curlCommand'', JStr [])])
     = \<lparr>code = 400, payload = JObj [(''error'', JStr ''curlCommand is required'')]\<rparr>
   \<and> api_http_request noContent 0 7
        (Some \<lparr>b_url = None, b_method = Some ''GET'', b_headers = None, b_body = None,
               b_auth = None, b_timeout = None, b_followRedirects = None\<rparr>)
     = \<lparr>code = 400, payload = JObj [(''error'', JStr ''url is required'')]\<rparr>
   \<and> code (api_execute_curl noContent 0 7 (JObj [(''curlCommand'', JNum 5)])) = 500
   \<and> getField (payload (api_execute_curl noContent 0 7 (JObj [(''curlCommand'', JNum 5)])))
        ''success'' = JBool False
   \<and> code (api_http_request noContent 0 7 None) = 500
   \<and> getField (payload (api_http_request noContent 0 7 None)) ''success'' = JBool False"
  using facade_replies
    [where reqBody = "JObj [(''curlCommand'', JStr [])]" and axios = noContent
       and startTime = 0 and endTime = 7 and optBody = None
       and b = "\<lparr>b_url = None, b_method = Some ''GET'', b_headers = None, b_body = None,
                  b_auth = None, b_timeout = None, b_followRedirects = None\<rparr>"]
    facade_replies
    [where reqBody = "JObj [(''curlCommand'', JNum 5)]" and axios = noContent
       and startTime = 0 and endTime = 7 and optBody = None]
  by (simp add: truthyStr_def)

section \<open>An empty body\<close>

text \<open>
  C9. A descriptor whose body is the empty string is executed as the same descriptor without
  a body: the heap after the call and the descriptor returned are the same, no payload is
  attached and the outgoing \<open>Content-Type\<close> is that of the descriptor's headers, for every
  method.
\<close>

theorem empty_body_as_no_body:
  "executeRequest axios startTime endTime h (config\<lparr>body := Some []\<rparr>)
     = executeRequest axios startTime endTime h (config\<lparr>body := None\<rparr>)
   \<and> ax_data (snd (buildAxiosConfig h (config\<lparr>body := Some []\<rparr>))) = None
   \<and> map_of (deref (fst (buildAxiosConfig h (config\<lparr>body := Some []\<rparr>)))
               (ax_headers (snd (buildAxiosConfig h (config\<lparr>body := Some []\<rparr>)))))
        ''Content-Type''
      = map_of (case headers config of None \<Rightarrow> [] | Some r \<Rightarrow> deref h r) ''Content-Type''"
  by (simp add: executeRequest_def buildAxiosConfig_def truthyStr_def Let_def deref_def
      setProp_def update_conv' split: option.splits)

theorem empty_body_as_no_body_witness:
  "executeRequest noContent 0 7 [] emptyBodyPost
     = executeRequest noContent 0 7 [] (emptyBodyPost\<lparr>body := None\<rparr>)
   \<and> ax_data (snd (buildAxiosConfig [] emptyBodyPost)) = None
   \<and> map_of (deref (fst (buildAxiosConfig [] emptyBodyPost))
               (ax_headers (snd (buildAxiosConfig [] emptyBodyPost)))) ''Content-Type'' = None"
  using empty_body_as_no_body
    [where config = emptyBodyPost and h = "[]" and axios = noContent
       and startTime = 0 and endTime = 7]
  by (simp add: emptyBodyPost_def)

section \<open>Collecting headers\<close>

text \<open>
  What the header pattern captures has no apostrophe, so no header name and no header value
  that the parser collects has one: a header whose argument contains an apostrophe is never
  collected as it is written, whichever quote opens the argument.
\<close>

lemma take_within_takeWhile:
  assumes "k \<le> length (takeWhile p u)"
  shows "\<forall>ch \<in> set (take k u). p ch"
proof -
  have "take k u = take k (take (length (takeWhile p u)) u)"
    using assms by (simp add: min_def)
  also have "\<dots> = take k (takeWhile p u)"
    using takeWhile_eq_take [of p u] by simp
  finally have "set (take k u) \<subseteq> set (takeWhile p u)"
    using set_take_subset [of k "takeWhile p u"] by simp
  then show ?thesis by (auto dest: set_takeWhileD)
qed

lemma notApostrophe_taken:
  "ch \<in> set (take k u) \<Longrightarrow> k \<le> length (takeWhile notApostrophe u) \<Longrightarrow> notApostrophe ch"
  using take_within_takeWhile [of k notApostrophe u] by blast

lemma litMatch_captures:
  "(j, t, d) \<in> set (litMatch l (i, s, c)) \<Longrightarrow> d = c"
  by (auto simp: litMatch_def split: if_splits)

lemma headerRegex_group2:
  assumes "(j, t, caps) \<in> set (rmatch (Cap 0 headerRegex) (i, s, []))"
  shows "\<exists>g. map_of caps 2 = Some g \<and> (\<forall>ch \<in> set g. notApostrophe ch)"
  using assms unfolding headerRegex_def
  by (auto dest!: litMatch_captures split: if_splits list.splits option.splits)
     (erule notApostrophe_taken, simp)+

lemma rexec_member:
  "rexec r i s = Some m \<Longrightarrow> \<exists>i' s'. m \<in> set (rmatch (Cap 0 r) (i', s', []))"
proof (induction s arbitrary: i)
  case Nil
  then have "m \<in> set (rmatch (Cap 0 r) (i, [], []))"
    by (cases "rmatch (Cap 0 r) (i, [], [])") (simp_all del: rmatch.simps)
  then show ?case by blast
next
  case (Cons x xs)
  show ?case
  proof (cases "rmatch (Cap 0 r) (i, x # xs, [])")
    case Nil
    with Cons.prems have "rexec r (Suc i) xs = Some m" by simp
    from Cons.IH [OF this] show ?thesis .
  next
    case (Cons st sts)
    with Cons.prems have "m \<in> set (rmatch (Cap 0 r) (i, x # xs, []))" by simp
    then show ?thesis by blast
  qed
qed

lemma headerLine_no_apostrophe:
  assumes "rexec headerRegex i s = Some m"
  shows "CHR 0x27 \<notin> set (groupText m 2)"
proof -
  from rexec_member [OF assms] obtain i' s' where
    "m \<in> set (rmatch (Cap 0 headerRegex) (i', s', []))" by blast
  then obtain g where "map_of (snd (snd m)) 2 = Some g" "\<forall>ch \<in> set g. notApostrophe ch"
    using headerRegex_group2 [of "fst m" "fst (snd m)" "snd (snd m)" i' s'] by auto
  then show ?thesis by (auto simp: groupText_def grp_def notApostrophe_def)
qed

lemma set_trim: "set (trim s) \<subseteq> set s"
  by (auto simp: trim_def dest!: set_dropWhileD)

lemma set_setProp: "set (setProp obj k v) \<subseteq> insert (k, v) (set obj)"
proof -
  have "set (AList.update k v al) \<subseteq> insert (k, v) (set al)" for al :: headerObj
    by (induction al) auto
  then show ?thesis by (auto simp: setProp_def)
qed

lemma collectHeader_plain:
  assumes "CHR 0x27 \<notin> set line" "plain (fst acc)"
  shows "plain (fst (collectHeader line acc))"
proof (cases "indexOf line (CHR '':'')")
  case None
  with assms show ?thesis by (simp add: collectHeader_def)
next
  case (Some n)
  have k: "CHR 0x27 \<notin> set (trim (take n line))"
    using assms(1) set_trim [of "take n line"] set_take_subset [of n line] by blast
  have v: "CHR 0x27 \<notin> set (trim (drop (n + 1) line))"
    using assms(1) set_trim [of "drop (n + 1) line"] set_drop_subset [of "n + 1" line] by blast
  from k v assms(2) Some show ?thesis
    using set_setProp [of "fst acc" "trim (take n line)" "trim (drop (n + 1) line)"]
    by (auto simp: collectHeader_def plain_def Let_def list_all_iff)
qed

lemma scanHeaders_plain:
  "plain (fst acc) \<Longrightarrow> plain (fst (scanHeaders i s acc))"
proof (induction i s acc rule: scanHeaders.induct)
  case (1 lastIndex s acc)
  show ?case
  proof (cases "rexec headerRegex lastIndex s")
    case None
    with "1.prems" show ?thesis by (subst scanHeaders.simps) simp
  next
    case (Some m)
    obtain j rest caps where m: "m = (j, rest, caps)" by (cases m)
    have "plain (fst (collectHeader (groupText (j, rest, caps) 2) acc))"
      using headerLine_no_apostrophe [OF Some] "1.prems" m by (auto intro: collectHeader_plain)
    from "1.IH" [OF Some [unfolded m] refl refl this] Some m show ?thesis
      by (subst scanHeaders.simps) simp
  qed
qed

lemma parsed_headers_plain:
  assumes "parseCurlCommand s = Inr config" "headers config = Some hs" "(k, v) \<in> set hs"
  shows "CHR 0x27 \<notin> set k \<and> CHR 0x27 \<notin> set v"
proof -
  have "plain (fst (scanHeaders 0 (trim s) ([], None)))"
    by (rule scanHeaders_plain) (simp add: plain_def)
  moreover from assms(1,2) have "hs = fst (scanHeaders 0 (trim s) ([], None))"
    by (auto simp: parseCurlCommand_def Let_def split: if_splits option.splits)
  ultimately show ?thesis using assms(3) by (auto simp: plain_def list_all_iff)
qed

text \<open>
  C10. Claimed: a header whose double-quoted argument has an apostrophe is not collected,
  while the headers whose quoted argument has none are collected. The first half is
  \<open>parsed_headers_plain\<close>. The second half fails on two double-quoted headers: the capture
  \<open>[^']+\<close> runs over the closing quote to the last double quote before the next apostrophe
  or the end, and the command with the headers \<open>Accept: text/plain\<close> and \<open>X-Id: 7\<close> yields
  the single header \<open>Accept\<close> with the rest of the command up to that quote as its value.
\<close>

theorem two_quoted_headers_merged:
  "parseCurlCommand twoQuotedHeaders
     = Inr \<lparr>url = ''https://example.com'', httpMethod = ''GET'',
            headers = Some [(''Accept'', ''text/plain\" -H \"X-Id: 7'')], body = None,
            auth = None, timeout = Some 30000, followRedirects = Some True\<rparr>"
  by code_simp

end
